theory Spec2Isabelle
  imports Main "HOL-Library.AList"
begin

section \<open>Values, errors and the world\<close>

text \<open>
  The script works on what \<^verbatim>\<open>json.load\<close> returns: \<^verbatim>\<open>None\<close>, booleans, integers,
  strings, lists and dictionaries with string keys. A dictionary is an association list
  in insertion order (Python keeps it); a store through \<^verbatim>\<open>d[k] = v\<close> is
  \<open>AList.update\<close>: an existing key keeps its place, a new one goes to the end.
  Numbers are Python's unbounded integers; a number with a fraction or an exponent is
  outside this embedding. A \<^verbatim>\<open>str\<close> is a list of 8-bit characters (the code points
  up to U+00FF). The values the decoder builds are trees without sharing, so the in-place
  stores of the source are rebuilt as new values.
\<close>

datatype json =
    JNull
  | JBool bool
  | JInt int
  | JStr string
  | JArr "json list"
  | JObj "(string \<times> json) list"

text \<open>
  Every way the script stops early: the exceptions it lets escape, and \<^verbatim>\<open>sys.exit\<close>.
  \<open>OSError\<close> stands for its subclasses (\<^verbatim>\<open>FileNotFoundError\<close>, \<^verbatim>\<open>IsADirectoryError\<close>,
  \<^verbatim>\<open>FileExistsError\<close>, \<^verbatim>\<open>shutil.SameFileError\<close>); \<open>JSONDecodeError\<close> carries the
  decoder's message. \<open>ValueError\<close> and \<open>RecursionError\<close> are what the decoder
  raises besides: a \<^verbatim>\<open>ValueError\<close> that is no \<^verbatim>\<open>JSONDecodeError\<close> on an integer of
  more than 4300 digits, a \<^verbatim>\<open>RecursionError\<close> on a text nested too deep.
\<close>

datatype error =
    KeyError
  | TypeError
  | AttributeError
  | IndexError
  | OSError
  | JSONDecodeError string
  | ValueError
  | RecursionError
  | SystemExit nat

text \<open>
  The world the script acts on: the text of each file by path, the directories, and the
  texts printed so far, one for each call of \<^verbatim>\<open>print\<close>. Paths are compared as strings. A file can be written wherever
  no directory stands: where the script writes, the folder has just been made or the
  file has just been read.
\<close>

record world =
  files :: "string \<rightharpoonup> string"
  dirs :: "string set"
  out :: "string list"

definition print_line :: "string \<Rightarrow> world \<Rightarrow> world" where
  "print_line line w = w\<lparr>out := out w @ [line]\<rparr>"

text \<open>
  Sequencing of steps that may raise: the first error ends the chain, as an exception
  that nobody catches does.
\<close>

definition and_then :: "error + 'a \<Rightarrow> ('a \<Rightarrow> error + 'b) \<Rightarrow> error + 'b" where
  "and_then r f = (case r of Inl e \<Rightarrow> Inl e | Inr x \<Rightarrow> f x)"

section \<open>Python's operations on decoded values\<close>

text \<open>Truth value of a decoded value (\<^verbatim>\<open>not x\<close> is its negation).\<close>

fun truthy :: "json \<Rightarrow> bool" where
  "truthy JNull = False"
| "truthy (JBool b) = b"
| "truthy (JInt n) = (n \<noteq> 0)"
| "truthy (JStr s) = (s \<noteq> [])"
| "truthy (JArr xs) = (xs \<noteq> [])"
| "truthy (JObj m) = (m \<noteq> [])"

fun starts_with :: "string \<Rightarrow> string \<Rightarrow> bool" where
  "starts_with [] s = True"
| "starts_with (k # ks) [] = False"
| "starts_with (k # ks) (c # cs) = (k = c \<and> starts_with ks cs)"

text \<open>\<^verbatim>\<open>k in s\<close> on two strings: \<open>k\<close> occurs in \<open>s\<close> as a substring.\<close>

fun str_contains :: "string \<Rightarrow> string \<Rightarrow> bool" where
  "str_contains k [] = (k = [])"
| "str_contains k (c # cs) = (starts_with k (c # cs) \<or> str_contains k cs)"

text \<open>\<^verbatim>\<open>obj[k]\<close> with a string key: only a dictionary can answer.\<close>

fun getitem :: "json \<Rightarrow> string \<Rightarrow> error + json" where
  "getitem (JObj m) k = (case map_of m k of None \<Rightarrow> Inl KeyError | Some v \<Rightarrow> Inr v)"
| "getitem JNull k = Inl TypeError"
| "getitem (JBool b) k = Inl TypeError"
| "getitem (JInt n) k = Inl TypeError"
| "getitem (JStr s) k = Inl TypeError"
| "getitem (JArr xs) k = Inl TypeError"

text \<open>\<^verbatim>\<open>obj[i]\<close> with a non-negative integer index.\<close>

fun getindex :: "json \<Rightarrow> nat \<Rightarrow> error + json" where
  "getindex (JArr xs) i = (if i < length xs then Inr (xs ! i) else Inl IndexError)"
| "getindex (JStr s) i = (if i < length s then Inr (JStr [s ! i]) else Inl IndexError)"
| "getindex (JObj m) i = Inl KeyError"
| "getindex JNull i = Inl TypeError"
| "getindex (JBool b) i = Inl TypeError"
| "getindex (JInt n) i = Inl TypeError"

text \<open>\<^verbatim>\<open>obj[k] = v\<close> with a string key.\<close>

fun setitem :: "json \<Rightarrow> string \<Rightarrow> json \<Rightarrow> error + json" where
  "setitem (JObj m) k v = Inr (JObj (AList.update k v m))"
| "setitem JNull k v = Inl TypeError"
| "setitem (JBool b) k v = Inl TypeError"
| "setitem (JInt n) k v = Inl TypeError"
| "setitem (JStr s) k v = Inl TypeError"
| "setitem (JArr xs) k v = Inl TypeError"

text \<open>
  \<^verbatim>\<open>k in obj\<close> for a string \<open>k\<close>: a key of a dictionary, an element of a list, a
  substring of a string; the other values are not iterable.
\<close>

fun contains :: "string \<Rightarrow> json \<Rightarrow> error + bool" where
  "contains k (JObj m) = Inr (k \<in> fst ` set m)"
| "contains k (JArr xs) = Inr (JStr k \<in> set xs)"
| "contains k (JStr s) = Inr (str_contains k s)"
| "contains k JNull = Inl TypeError"
| "contains k (JBool b) = Inl TypeError"
| "contains k (JInt n) = Inl TypeError"

text \<open>
  \<^verbatim>\<open>for x in obj\<close>: the elements of a list, the keys of a dictionary, the characters
  of a string.
\<close>

fun iter_items :: "json \<Rightarrow> error + json list" where
  "iter_items (JArr xs) = Inr xs"
| "iter_items (JObj m) = Inr (map (\<lambda>kv. JStr (fst kv)) m)"
| "iter_items (JStr s) = Inr (map (\<lambda>c. JStr [c]) s)"
| "iter_items JNull = Inl TypeError"
| "iter_items (JBool b) = Inl TypeError"
| "iter_items (JInt n) = Inl TypeError"

text \<open>\<^verbatim>\<open>obj.get(k, default)\<close>: only a dictionary has the method.\<close>

fun dict_get :: "json \<Rightarrow> string \<Rightarrow> json \<Rightarrow> error + json" where
  "dict_get (JObj m) k d = (case map_of m k of None \<Rightarrow> Inr d | Some v \<Rightarrow> Inr v)"
| "dict_get JNull k d = Inl AttributeError"
| "dict_get (JBool b) k d = Inl AttributeError"
| "dict_get (JInt n) k d = Inl AttributeError"
| "dict_get (JStr s) k d = Inl AttributeError"
| "dict_get (JArr xs) k d = Inl AttributeError"

text \<open>\<^verbatim>\<open>s.find(c)\<close> and \<^verbatim>\<open>s.rfind(c)\<close> for one character; \<open>None\<close> is Python's -1.\<close>

fun str_find :: "char \<Rightarrow> string \<Rightarrow> nat option" where
  "str_find c [] = None"
| "str_find c (x # xs) = (if x = c then Some 0 else map_option Suc (str_find c xs))"

fun str_rfind :: "char \<Rightarrow> string \<Rightarrow> nat option" where
  "str_rfind c [] = None"
| "str_rfind c (x # xs) =
     (case str_rfind c xs of
        Some i \<Rightarrow> Some (Suc i)
      | None \<Rightarrow> if x = c then Some 0 else None)"

text \<open>\<^verbatim>\<open>s[a:b]\<close> for indices within the string: empty when \<open>b \<le> a\<close>.\<close>

definition slice :: "string \<Rightarrow> nat \<Rightarrow> nat \<Rightarrow> string" where
  "slice s a b = drop a (take b s)"

section \<open>The judge invoker\<close>

text \<open>
  \<^verbatim>\<open>analyze_implementations\<close>, lines 171 to 180: the text that is handed to
  \<^verbatim>\<open>json.loads\<close>.
\<close>

definition json_str :: "string \<Rightarrow> string" where
  "json_str content =
     (case (str_find (CHR ''{'') content, str_rfind (CHR ''}'') content) of
        (Some first_brace, Some last_brace) \<Rightarrow> slice content first_brace (last_brace + 1)
      | _ \<Rightarrow> content)"

text \<open>The structure returned on a decoding error, lines 184 to 216.\<close>

definition error_entry :: "string \<Rightarrow> json" where
  "error_entry name =
     JObj [(''name'', JStr name), (''task_success'', JInt 0),
           (''instruction_following'', JInt 0),
           (''comment'', JStr ''Error parsing LLM response'')]"

definition fallback_result :: json where
  "fallback_result =
     JObj [(''implementations'',
            JArr [error_entry ''impl_1'', error_entry ''impl_2'',
                  error_entry ''impl_3'', error_entry ''impl_4'']),
           (''evaluation'',
            JObj [(''best_diff'', JInt 0),
                  (''preference_rationale'', JStr ''Error parsing LLM response''),
                  (''improved_diff'', JStr [])])]"

text \<open>
  The user prompt is formatted from \<^verbatim>\<open>reports['impl_n']\<close> and
  \<^verbatim>\<open>implementations[n-1]\<close>, in this order for n = 1..4; a missing report is a
  \<^verbatim>\<open>KeyError\<close>, a missing diff an \<^verbatim>\<open>IndexError\<close>.
\<close>

definition prompt_part ::
  "(string \<times> string) list \<Rightarrow> json list \<Rightarrow> string \<Rightarrow> nat \<Rightarrow> error + (string \<times> json)" where
  "prompt_part reports implementations name i =
     (case map_of reports name of
        None \<Rightarrow> Inl KeyError
      | Some r \<Rightarrow>
          if i < length implementations then Inr (r, implementations ! i)
          else Inl IndexError)"

definition user_prompt ::
  "(string \<times> string) list \<Rightarrow> json list \<Rightarrow> error + (string \<times> json) list" where
  "user_prompt reports implementations =
     and_then (prompt_part reports implementations ''impl_1'' 0) (\<lambda>p1.
     and_then (prompt_part reports implementations ''impl_2'' 1) (\<lambda>p2.
     and_then (prompt_part reports implementations ''impl_3'' 2) (\<lambda>p3.
     and_then (prompt_part reports implementations ''impl_4'' 3) (\<lambda>p4.
     Inr [p1, p2, p3, p4]))))"

text \<open>
  \<^verbatim>\<open>analyze_implementations\<close>. The hosted model and \<^verbatim>\<open>json.loads\<close> are not code of
  this repository and enter as parameters: \<open>llm\<close> gives the reply's text for the values
  the two messages are formatted from (the system message is a constant), \<open>loads\<close>
  gives the decoded value or the exception the decoder raises. Line 181 catches
  \<^verbatim>\<open>json.JSONDecodeError\<close> and nothing else: any other exception of the decoder leaves
  the function. A call of the model that raises is outside this embedding.
\<close>

definition analyze_implementations ::
  "(string \<Rightarrow> error + json) \<Rightarrow> (json \<Rightarrow> bool \<Rightarrow> (string \<times> json) list \<Rightarrow> string) \<Rightarrow>
   json \<Rightarrow> (string \<times> string) list \<Rightarrow> json list \<Rightarrow> bool \<Rightarrow> world \<Rightarrow> (error + json) \<times> world" where
  "analyze_implementations loads llm problem_description reports implementations
       include_improved_diff w =
     (case user_prompt reports implementations of
        Inl e \<Rightarrow> (Inl e, w)
      | Inr parts \<Rightarrow>
          let content = llm problem_description include_improved_diff parts in
          (case loads (json_str content) of
             Inr v \<Rightarrow> (Inr v, w)
           | Inl e \<Rightarrow>
               (case e of
                  JSONDecodeError msg \<Rightarrow>
                    (Inr fallback_result,
                     print_line (''Raw response content: '' @ content)
                       (print_line (''Error decoding JSON: '' @ msg) w))
                | _ \<Rightarrow> (Inl e, w))))"

section \<open>Paths and files\<close>

text \<open>\<^verbatim>\<open>str(n)\<close> and the \<^verbatim>\<open>{n}\<close> of an f-string, for integers.\<close>

fun show_nat :: "nat \<Rightarrow> string" where
  "show_nat n =
     (if n < 10 then [''0123456789'' ! n]
      else show_nat (n div 10) @ [''0123456789'' ! (n mod 10)])"

definition show_int :: "int \<Rightarrow> string" where
  "show_int n = (if n < 0 then CHR ''-'' # show_nat (nat (- n)) else show_nat (nat n))"

text \<open>\<^verbatim>\<open>os.path.join\<close> of two components, on a POSIX system.\<close>

definition path_join :: "string \<Rightarrow> string \<Rightarrow> string" where
  "path_join a b =
     (if starts_with ''/'' b then b
      else if a = [] \<or> last a = CHR ''/'' then a @ b
      else a @ ''/'' @ b)"

definition path_exists :: "world \<Rightarrow> string \<Rightarrow> bool" where
  "path_exists w p = (files w p \<noteq> None \<or> p \<in> dirs w)"

text \<open>\<^verbatim>\<open>open(p, "r")\<close> and \<^verbatim>\<open>read()\<close>.\<close>

definition read_text :: "world \<Rightarrow> string \<Rightarrow> error + string" where
  "read_text w p = (case files w p of None \<Rightarrow> Inl OSError | Some txt \<Rightarrow> Inr txt)"

text \<open>\<^verbatim>\<open>open(p, "w")\<close> and one write of the whole text.\<close>

definition write_text :: "world \<Rightarrow> string \<Rightarrow> string \<Rightarrow> error + world" where
  "write_text w p txt =
     (if p \<in> dirs w then Inl OSError else Inr (w\<lparr>files := (files w)(p \<mapsto> txt)\<rparr>))"

text \<open>The path itself and the directories above it, as \<^verbatim>\<open>os.makedirs\<close> walks them.\<close>

fun dir_prefixes :: "string \<Rightarrow> string \<Rightarrow> string list" where
  "dir_prefixes seen [] = [seen]"
| "dir_prefixes seen (c # cs) =
     (if c = CHR ''/'' then seen # dir_prefixes (seen @ [c]) cs
      else dir_prefixes (seen @ [c]) cs)"

definition ancestors :: "string \<Rightarrow> string list" where
  "ancestors p = filter (\<lambda>q. q \<noteq> []) (dir_prefixes [] p)"

text \<open>\<^verbatim>\<open>os.makedirs(p, exist_ok=True)\<close>.\<close>

definition makedirs :: "world \<Rightarrow> string \<Rightarrow> error + world" where
  "makedirs w p =
     (if p \<in> dirs w then Inr w
      else if \<exists>q \<in> set (ancestors p). files w q \<noteq> None then Inl OSError
      else Inr (w\<lparr>dirs := dirs w \<union> set (ancestors p)\<rparr>))"

text \<open>\<^verbatim>\<open>shutil.copyfile(src, dst)\<close>.\<close>

definition copyfile :: "world \<Rightarrow> string \<Rightarrow> string \<Rightarrow> error + world" where
  "copyfile w src dst =
     (if src = dst then Inl OSError
      else case files w src of None \<Rightarrow> Inl OSError | Some txt \<Rightarrow> write_text w dst txt)"

text \<open>
  A step in a world: when it raises, the world stays as it was before the step.
\<close>

definition on_success ::
  "error + 'a \<Rightarrow> world \<Rightarrow> ('a \<Rightarrow> (error + 'b) \<times> world) \<Rightarrow> (error + 'b) \<times> world" where
  "on_success r w f = (case r of Inl e \<Rightarrow> (Inl e, w) | Inr x \<Rightarrow> f x)"

text \<open>
  \<^verbatim>\<open>json.load(file)\<close> on a text already read: nothing catches what the decoder raises.
\<close>

definition decode :: "(string \<Rightarrow> error + json) \<Rightarrow> string \<Rightarrow> error + json" where
  "decode loads txt = loads txt"

section \<open>The command runner\<close>

text \<open>
  \<^verbatim>\<open>run_command\<close>. The shell command is not code of this repository: \<open>exec\<close> gives
  its exit status and the world it leaves.
\<close>

definition run_command ::
  "(string \<Rightarrow> world \<Rightarrow> int \<times> world) \<Rightarrow> string \<Rightarrow> world \<Rightarrow> (error + unit) \<times> world" where
  "run_command exec command w =
     (case exec command (print_line (''Executing: '' @ command) w) of
        (returncode, w1) \<Rightarrow>
          if returncode \<noteq> 0
          then (Inl (SystemExit 1),
                print_line (''Error: Command failed with exit code '' @ show_int returncode) w1)
          else (Inr (), print_line ''Command completed successfully.'' w1))"

text \<open>The loop of \<^verbatim>\<open>main\<close>, lines 354 and 355.\<close>

fun run_commands ::
  "(string \<Rightarrow> world \<Rightarrow> int \<times> world) \<Rightarrow> string list \<Rightarrow> world \<Rightarrow> (error + unit) \<times> world" where
  "run_commands exec [] w = (Inr (), w)"
| "run_commands exec (command # rest) w =
     (case run_command exec command w of
        (Inl e, w1) \<Rightarrow> (Inl e, w1)
      | (Inr u, w1) \<Rightarrow> run_commands exec rest w1)"

section \<open>The metadata merger\<close>

definition impl_to_diff :: "(string \<times> string) list" where
  "impl_to_diff =
     [(''impl_1'', ''diff_1''), (''impl_2'', ''diff_2''),
      (''impl_3'', ''diff_3''), (''impl_4'', ''diff_4'')]"

text \<open>
  \<^verbatim>\<open>impl_to_diff.get(impl_name)\<close>: a list or a dictionary cannot be hashed, any other
  value that is not one of the four names gives \<^verbatim>\<open>None\<close>.
\<close>

fun impl_to_diff_get :: "json \<Rightarrow> error + string option" where
  "impl_to_diff_get (JStr s) = Inr (map_of impl_to_diff s)"
| "impl_to_diff_get (JArr xs) = Inl TypeError"
| "impl_to_diff_get (JObj m) = Inl TypeError"
| "impl_to_diff_get JNull = Inr None"
| "impl_to_diff_get (JBool b) = Inr None"
| "impl_to_diff_get (JInt n) = Inr None"

text \<open>The three stores of lines 250 to 252 into one slot.\<close>

definition write_scores :: "json \<Rightarrow> json \<Rightarrow> json \<Rightarrow> json \<Rightarrow> error + json" where
  "write_scores impl task_success instruction_following comment =
     and_then (setitem impl ''task_success'' task_success) (\<lambda>impl1.
     and_then (setitem impl1 ''instruction_following'' instruction_following) (\<lambda>impl2.
     setitem impl2 ''comment'' comment))"

text \<open>
  The inner loop, lines 246 to 253: the first element that holds the diff key receives
  the scores, and the loop ends there.
\<close>

fun update_first ::
  "string \<Rightarrow> json \<Rightarrow> json \<Rightarrow> json \<Rightarrow> json list \<Rightarrow> error + json list" where
  "update_first diff_key task_success instruction_following comment [] = Inr []"
| "update_first diff_key task_success instruction_following comment (impl # rest) =
     and_then (contains diff_key impl) (\<lambda>found.
       if found
       then and_then (write_scores impl task_success instruction_following comment)
              (\<lambda>impl'. Inr (impl' # rest))
       else and_then (update_first diff_key task_success instruction_following comment rest)
              (\<lambda>rest'. Inr (impl # rest')))"

text \<open>
  The body of the outer loop, lines 235 to 253. When \<^verbatim>\<open>metadata["implementations"]\<close>
  is a list its elements are the slots themselves and the stores reach the record; the
  elements a dictionary or a string yields are strings, which take no store.
\<close>

definition merge_entry :: "json \<Rightarrow> json \<Rightarrow> error + json" where
  "merge_entry metadata implementation =
     and_then (getitem implementation ''name'') (\<lambda>impl_name.
     and_then (getitem implementation ''task_success'') (\<lambda>task_success.
     and_then (getitem implementation ''instruction_following'') (\<lambda>instruction_following.
     and_then (getitem implementation ''comment'') (\<lambda>comment.
     and_then (impl_to_diff_get impl_name) (\<lambda>diff_key.
       case diff_key of
         None \<Rightarrow> Inr metadata
       | Some key \<Rightarrow>
           if key = [] then Inr metadata
           else
             and_then (getitem metadata ''implementations'') (\<lambda>slots.
             and_then (iter_items slots) (\<lambda>impls.
             and_then (update_first key task_success instruction_following comment impls)
               (\<lambda>impls'.
                 case slots of
                   JArr xs \<Rightarrow> setitem metadata ''implementations'' (JArr impls')
                 | _ \<Rightarrow> Inr metadata))))))))"

fun update_implementations :: "json \<Rightarrow> json list \<Rightarrow> error + json" where
  "update_implementations metadata [] = Inr metadata"
| "update_implementations metadata (implementation # rest) =
     and_then (merge_entry metadata implementation) (\<lambda>metadata'.
       update_implementations metadata' rest)"

text \<open>
  One of the three guarded stores of lines 257 to 268: the right-hand side is read
  first, then \<^verbatim>\<open>metadata["evaluation"]\<close>.
\<close>

definition copy_evaluation_field :: "string \<Rightarrow> json \<Rightarrow> json \<Rightarrow> error + json" where
  "copy_evaluation_field k analysis_results metadata =
     and_then (getitem analysis_results ''evaluation'') (\<lambda>evaluation.
     and_then (contains k evaluation) (\<lambda>present.
       if present
       then and_then (getitem evaluation k) (\<lambda>v.
            and_then (getitem metadata ''evaluation'') (\<lambda>section.
            and_then (setitem section k v) (\<lambda>section'.
            setitem metadata ''evaluation'' section')))
       else Inr metadata))"

definition update_evaluation :: "json \<Rightarrow> json \<Rightarrow> error + json" where
  "update_evaluation metadata analysis_results =
     and_then (contains ''evaluation'' analysis_results) (\<lambda>present.
       if present
       then and_then (copy_evaluation_field ''best_diff'' analysis_results metadata) (\<lambda>m1.
            and_then (copy_evaluation_field ''preference_rationale'' analysis_results m1) (\<lambda>m2.
            copy_evaluation_field ''improved_diff'' analysis_results m2))
       else Inr metadata)"

text \<open>Lines 234 to 268 on the decoded record.\<close>

definition merge_results :: "json \<Rightarrow> json \<Rightarrow> error + json" where
  "merge_results metadata analysis_results =
     and_then (getitem analysis_results ''implementations'') (\<lambda>entries.
     and_then (iter_items entries) (\<lambda>implementations.
     and_then (update_implementations metadata implementations) (\<lambda>metadata'.
     update_evaluation metadata' analysis_results)))"

text \<open>
  \<^verbatim>\<open>update_metadata\<close>. \<^verbatim>\<open>json.dump\<close> is not code of this repository: \<open>dumps\<close>
  gives the text it writes for a value (with \<^verbatim>\<open>indent=4\<close>). The values it is given
  are built from what the decoder returned, which the encoder always accepts.
\<close>

definition update_metadata ::
  "(string \<Rightarrow> error + json) \<Rightarrow> (json \<Rightarrow> string) \<Rightarrow> world \<Rightarrow> string \<Rightarrow> json \<Rightarrow>
   (error + unit) \<times> world" where
  "update_metadata loads dumps w task_folder analysis_results =
     (let metadata_path = path_join task_folder ''metadata.json'' in
      on_success (read_text w metadata_path) w (\<lambda>txt.
      on_success (decode loads txt) w (\<lambda>metadata.
      on_success (merge_results metadata analysis_results) w (\<lambda>metadata'.
      on_success (write_text w metadata_path (dumps metadata')) w (\<lambda>w'.
      (Inr (), w'))))))"

section \<open>The task bootstrapper\<close>

text \<open>\<^verbatim>\<open>metadata[k1][k2] = v\<close>.\<close>

definition store_in :: "json \<Rightarrow> string \<Rightarrow> string \<Rightarrow> json \<Rightarrow> error + json" where
  "store_in metadata k1 k2 v =
     and_then (getitem metadata k1) (\<lambda>section.
     and_then (setitem section k2 v) (\<lambda>section'.
     setitem metadata k1 section'))"

text \<open>\<^verbatim>\<open>metadata["implementations"][i][k] = v\<close>.\<close>

definition store_in_slot :: "json \<Rightarrow> nat \<Rightarrow> string \<Rightarrow> json \<Rightarrow> error + json" where
  "store_in_slot metadata i k v =
     and_then (getitem metadata ''implementations'') (\<lambda>impls.
     and_then (getindex impls i) (\<lambda>slot.
     and_then (setitem slot k v) (\<lambda>slot'.
       case impls of
         JArr xs \<Rightarrow> setitem metadata ''implementations'' (JArr (xs[i := slot']))
       | _ \<Rightarrow> Inr metadata)))"

definition copy_detail :: "json \<Rightarrow> string \<Rightarrow> json \<Rightarrow> error + json" where
  "copy_detail task_data k metadata =
     and_then (dict_get task_data k (JStr [])) (\<lambda>v. store_in metadata ''task_details'' k v)"

definition copy_diff :: "json \<Rightarrow> nat \<Rightarrow> string \<Rightarrow> json \<Rightarrow> error + json" where
  "copy_diff task_data i k metadata =
     and_then (dict_get task_data k (JStr [])) (\<lambda>v. store_in_slot metadata i k v)"

text \<open>Lines 310 to 322: the stores into the record read from the copied template.\<close>

definition populate :: "json \<Rightarrow> json \<Rightarrow> string \<Rightarrow> error + json" where
  "populate metadata task_data task_id =
     and_then (setitem metadata ''task_id'' (JStr task_id)) (\<lambda>m1.
     and_then (dict_get task_data ''jira_id'' (JStr [])) (\<lambda>jira.
     and_then (setitem m1 ''jira'' jira) (\<lambda>m2.
     and_then (copy_detail task_data ''repo_name'' m2) (\<lambda>m3.
     and_then (copy_detail task_data ''before_sha'' m3) (\<lambda>m4.
     and_then (copy_detail task_data ''after_sha'' m4) (\<lambda>m5.
     and_then (copy_detail task_data ''pr_description'' m5) (\<lambda>m6.
     and_then (copy_detail task_data ''reference_implementation_diff'' m6) (\<lambda>m7.
     and_then (copy_diff task_data 0 ''diff_1'' m7) (\<lambda>m8.
     and_then (copy_diff task_data 1 ''diff_2'' m8) (\<lambda>m9.
     and_then (copy_diff task_data 2 ''diff_3'' m9) (\<lambda>m10.
     copy_diff task_data 3 ''diff_4'' m10)))))))))))"

text \<open>
  Lines 291 to 329, for a ticket identifier that is a string. \<open>task_id\<close> is the text
  of the identifier \<^verbatim>\<open>uuid.uuid4()\<close> draws in this run.
\<close>

definition seed_metadata ::
  "(string \<Rightarrow> error + json) \<Rightarrow> (json \<Rightarrow> string) \<Rightarrow> string \<Rightarrow> world \<Rightarrow> json \<Rightarrow> string \<Rightarrow>
   (error + string) \<times> world" where
  "seed_metadata loads dumps task_id w task_data jira_id =
     (let task_folder = path_join ''tasks'' jira_id;
          metadata_path = path_join task_folder ''metadata.json'' in
      on_success (makedirs w task_folder) w (\<lambda>w1.
      let w2 = print_line (''Created folder: '' @ task_folder) w1 in
      on_success (copyfile w2 ''tasks/metadata_base.json'' metadata_path) w2 (\<lambda>w3.
      let w4 = print_line (''Copied metadata_base.json to '' @ task_folder) w3 in
      on_success (read_text w4 metadata_path) w4 (\<lambda>txt.
      on_success (decode loads txt) w4 (\<lambda>metadata.
      on_success (populate metadata task_data task_id) w4 (\<lambda>metadata'.
      on_success (write_text w4 metadata_path (dumps metadata')) w4 (\<lambda>w5.
      (Inr task_folder,
       print_line (''Updated metadata.json in '' @ task_folder @ '' with task_id: '' @ task_id)
         w5))))))))"

text \<open>\<^verbatim>\<open>create_task_folder_and_metadata\<close>.\<close>

definition create_task_folder_and_metadata ::
  "(string \<Rightarrow> error + json) \<Rightarrow> (json \<Rightarrow> string) \<Rightarrow> string \<Rightarrow> world \<Rightarrow> string \<Rightarrow>
   (error + string) \<times> world" where
  "create_task_folder_and_metadata loads dumps task_id w task_data_path =
     (if \<not> path_exists w task_data_path
      then (Inl (SystemExit 1), print_line (''Error: '' @ task_data_path @ '' not found.'') w)
      else
        on_success (read_text w task_data_path) w (\<lambda>txt.
        on_success (decode loads txt) w (\<lambda>task_data.
        on_success (dict_get task_data ''jira_id'' JNull) w (\<lambda>jira_id.
          if \<not> truthy jira_id
          then (Inl (SystemExit 1), print_line ''Error: jira_id not found in task_data.json'' w)
          else
            case jira_id of
              JStr s \<Rightarrow> seed_metadata loads dumps task_id w task_data s
            | _ \<Rightarrow> (Inl TypeError, w)))))"

section \<open>Loading and the pipeline\<close>

definition load_task_data :: "(string \<Rightarrow> error + json) \<Rightarrow> world \<Rightarrow> string \<Rightarrow> error + json" where
  "load_task_data loads w task_data_path =
     and_then (read_text w task_data_path) (\<lambda>txt. decode loads txt)"

definition load_report :: "world \<Rightarrow> string \<Rightarrow> int \<Rightarrow> error + (string \<times> string)" where
  "load_report w analysis_dir i =
     and_then (read_text w (path_join analysis_dir (''impl_'' @ show_int i @ ''_report.md'')))
       (\<lambda>txt. Inr (''impl_'' @ show_int i, txt))"

definition load_implementation_reports ::
  "world \<Rightarrow> string \<Rightarrow> error + (string \<times> string) list" where
  "load_implementation_reports w analysis_dir =
     and_then (load_report w analysis_dir 1) (\<lambda>r1.
     and_then (load_report w analysis_dir 2) (\<lambda>r2.
     and_then (load_report w analysis_dir 3) (\<lambda>r3.
     and_then (load_report w analysis_dir 4) (\<lambda>r4.
     Inr [r1, r2, r3, r4]))))"

definition excecute_commands :: bool where
  "excecute_commands = True"

definition commands :: "string list" where
  "commands =
     [''python automation_tool/code_implementation_analysis.py automation_tool/task_data.json'',
      ''python automation_tool/compare_implementations.py --dir code-evaluation report impl_1 --output code-evaluation/analysis/impl_1_report.md'',
      ''python automation_tool/compare_implementations.py --dir code-evaluation report impl_2 --output code-evaluation/analysis/impl_2_report.md'',
      ''python automation_tool/compare_implementations.py --dir code-evaluation report impl_3 --output code-evaluation/analysis/impl_3_report.md'',
      ''python automation_tool/compare_implementations.py --dir code-evaluation report impl_4 --output code-evaluation/analysis/impl_4_report.md'',
      ''python automation_tool/compare_implementations.py --dir code-evaluation matrix --output code-evaluation/analysis/matrix.md'']"

text \<open>The four diffs of lines 361 to 366.\<close>

definition task_diffs :: "json \<Rightarrow> error + json list" where
  "task_diffs task_data =
     and_then (getitem task_data ''diff_1'') (\<lambda>d1.
     and_then (getitem task_data ''diff_2'') (\<lambda>d2.
     and_then (getitem task_data ''diff_3'') (\<lambda>d3.
     and_then (getitem task_data ''diff_4'') (\<lambda>d4.
     Inr [d1, d2, d3, d4]))))"

text \<open>Steps 2 to 4 of \<^verbatim>\<open>main\<close>, lines 358 to 377.\<close>

definition evaluate_task ::
  "(string \<Rightarrow> error + json) \<Rightarrow> (json \<Rightarrow> string) \<Rightarrow>
   (json \<Rightarrow> bool \<Rightarrow> (string \<times> json) list \<Rightarrow> string) \<Rightarrow> string \<Rightarrow> world \<Rightarrow>
   (error + unit) \<times> world" where
  "evaluate_task loads dumps llm task_id w =
     (let task_data_path = path_join ''automation_tool'' ''task_data.json'';
          analysis_dir = path_join ''code-evaluation'' ''analysis'';
          include_improved_diff = False in
      case create_task_folder_and_metadata loads dumps task_id w task_data_path of
        (Inl e, w1) \<Rightarrow> (Inl e, w1)
      | (Inr task_folder, w1) \<Rightarrow>
          on_success (load_task_data loads w1 task_data_path) w1 (\<lambda>task_data.
          on_success (getitem task_data ''pr_description'') w1 (\<lambda>problem_description.
          on_success (task_diffs task_data) w1 (\<lambda>implementations.
          on_success (load_implementation_reports w1 analysis_dir) w1 (\<lambda>reports.
          let w2 = print_line ''Analysis reports in progress!'' w1 in
          case analyze_implementations loads llm problem_description reports implementations
                 include_improved_diff w2 of
            (Inl e, w3) \<Rightarrow> (Inl e, w3)
          | (Inr analysis_results, w3) \<Rightarrow>
              (case update_metadata loads dumps w3 task_folder analysis_results of
                 (Inl e, w4) \<Rightarrow> (Inl e, w4)
               | (Inr u, w4) \<Rightarrow> (Inr (), print_line ''Metadata updated successfully!'' w4)))))))"

text \<open>
  \<^verbatim>\<open>main\<close>. The name \<^verbatim>\<open>api_key\<close> is read on line 340 and bound nowhere in this
  file: it is a parameter, as is \<open>chat_openai\<close>, the client that
  \<^verbatim>\<open>ChatOpenAI(model="gpt-4o-mini", temperature=0, api_key=api_key)\<close> builds from it
  before the first command runs.
\<close>

definition main ::
  "(string \<Rightarrow> error + json) \<Rightarrow> (json \<Rightarrow> string) \<Rightarrow> (string \<Rightarrow> world \<Rightarrow> int \<times> world) \<Rightarrow>
   (string \<Rightarrow> json \<Rightarrow> bool \<Rightarrow> (string \<times> json) list \<Rightarrow> string) \<Rightarrow> string \<Rightarrow> string \<Rightarrow>
   world \<Rightarrow> (error + unit) \<times> world" where
  "main loads dumps exec chat_openai api_key task_id w =
     (let llm = chat_openai api_key in
      case (if excecute_commands then run_commands exec commands w else (Inr (), w)) of
        (Inl e, w1) \<Rightarrow> (Inl e, w1)
      | (Inr u, w1) \<Rightarrow> evaluate_task loads dumps llm task_id w1)"

section \<open>The library's decoder and encoder on examples\<close>

text \<open>
  The theorems below hold for every \<open>loads\<close> and \<open>dumps\<close>. To run the script on
  concrete texts, \<open>json_loads\<close> and \<open>json_dumps\<close> follow the standard library's
  \<^verbatim>\<open>json.loads\<close> and \<^verbatim>\<open>json.dumps(indent=4)\<close> (CPython 3.11, with its messages)
  on the part of JSON this embedding has values for, with the \<^verbatim>\<open>ValueError\<close> of an
  integer of more than 4300 digits. A number with a fraction or an exponent,
  \<^verbatim>\<open>NaN\<close>, \<^verbatim>\<open>Infinity\<close>, an escape other than the eight two-character ones and the
  interpreter's recursion limit are outside that part: there \<open>json_loads\<close> answers a
  \<open>JSONDecodeError\<close> with the text \<open>Unmodelled\<close> or decodes the nested text, which
  says nothing about the library.
\<close>

datatype decode_error = Expected string nat | Too_many_digits | Unmodelled

fun skip_ws :: "nat \<Rightarrow> string \<Rightarrow> nat \<times> string" where
  "skip_ws i [] = (i, [])"
| "skip_ws i (c # cs) =
     (if c = CHR '' '' \<or> c = CHR 0x09 \<or> c = CHR 0x0A \<or> c = CHR 0x0D
      then skip_ws (Suc i) cs else (i, c # cs))"

definition unescape :: "char \<Rightarrow> char option" where
  "unescape e =
     map_of [(CHR 0x22, CHR 0x22), (CHR 0x5C, CHR 0x5C), (CHR ''/'', CHR ''/''),
             (CHR ''b'', CHR 0x08), (CHR ''f'', CHR 0x0C), (CHR ''n'', CHR 0x0A),
             (CHR ''r'', CHR 0x0D), (CHR ''t'', CHR 0x09)] e"

text \<open>The characters of a string, from behind its opening quote (at \<open>begin\<close>).\<close>

fun scanstring ::
  "nat \<Rightarrow> string \<Rightarrow> nat \<Rightarrow> string \<Rightarrow> decode_error + (string \<times> nat \<times> string)" where
  "scanstring begin acc i [] = Inl (Expected ''Unterminated string starting at'' begin)"
| "scanstring begin acc i (c # cs) =
     (if c = CHR 0x22 then Inr (acc, Suc i, cs)
      else if c = CHR 0x5C then
        (case cs of
           [] \<Rightarrow> Inl (Expected ''Unterminated string starting at'' begin)
         | e # cs' \<Rightarrow>
             (case unescape e of
                None \<Rightarrow> Inl Unmodelled
              | Some ch \<Rightarrow> scanstring begin (acc @ [ch]) (i + 2) cs'))
      else if (of_char c :: nat) < 32 then Inl (Expected ''Invalid control character at'' i)
      else scanstring begin (acc @ [c]) (Suc i) cs)"

definition is_digit :: "char \<Rightarrow> bool" where
  "is_digit c = (c \<in> set ''0123456789'')"

definition digits_value :: "string \<Rightarrow> nat" where
  "digits_value ds = foldl (\<lambda>n c. 10 * n + (of_char c - 48)) 0 ds"

definition fraction_or_exponent :: "string \<Rightarrow> bool" where
  "fraction_or_exponent s =
     (case s of
        [] \<Rightarrow> False
      | c # r \<Rightarrow>
          if c = CHR ''.'' then (case r of [] \<Rightarrow> False | d # r' \<Rightarrow> is_digit d)
          else if c = CHR ''e'' \<or> c = CHR ''E'' then
            (case r of
               [] \<Rightarrow> False
             | d # r' \<Rightarrow>
                 is_digit d \<or>
                 ((d = CHR ''+'' \<or> d = CHR ''-'') \<and>
                  (case r' of [] \<Rightarrow> False | d' # r'' \<Rightarrow> is_digit d')))
          else False)"

text \<open>A number at the head of the text, if there is one.\<close>

definition scan_number ::
  "nat \<Rightarrow> string \<Rightarrow> (decode_error + (json \<times> nat \<times> string)) option" where
  "scan_number i s =
     (let negative = starts_with ''-'' s;
          r = (if negative then tl s else s) in
      case r of
        [] \<Rightarrow> None
      | d # r' \<Rightarrow>
          if \<not> is_digit d then None
          else
            let ds = (if d = CHR ''0'' then [d] else d # takeWhile is_digit r');
                after = drop (length ds) r in
            if fraction_or_exponent after then Some (Inl Unmodelled)
            else if 4300 < length ds then Some (Inl Too_many_digits)
            else Some (Inr (JInt (if negative then - int (digits_value ds)
                                  else int (digits_value ds)),
                            i + (if negative then 1 else 0) + length ds, after)))"

text \<open>
  One value at position \<open>i\<close>, the members of an object behind the opening quote of a
  key, and the items of an array. The first argument bounds the calls;
  \<open>json_loads\<close> passes more than the text can use up.
\<close>

fun scan_once :: "nat \<Rightarrow> nat \<Rightarrow> string \<Rightarrow> decode_error + (json \<times> nat \<times> string)"
  and object_members ::
    "nat \<Rightarrow> (string \<times> json) list \<Rightarrow> nat \<Rightarrow> string \<Rightarrow> decode_error + (json \<times> nat \<times> string)"
  and array_items ::
    "nat \<Rightarrow> json list \<Rightarrow> nat \<Rightarrow> string \<Rightarrow> decode_error + (json \<times> nat \<times> string)" where
  "scan_once 0 i s = Inl Unmodelled"
| "scan_once (Suc n) i [] = Inl (Expected ''Expecting value'' i)"
| "scan_once (Suc n) i (c # cs) =
     (if c = CHR 0x22 then
        (case scanstring i [] (Suc i) cs of
           Inl e \<Rightarrow> Inl e
         | Inr (str, j, r) \<Rightarrow> Inr (JStr str, j, r))
      else if c = CHR ''{'' then
        (case skip_ws (Suc i) cs of
           (j, r) \<Rightarrow>
             if starts_with [CHR 0x22] r then object_members n [] (Suc j) (tl r)
             else if starts_with ''}'' r then Inr (JObj [], Suc j, tl r)
             else Inl (Expected ''Expecting property name enclosed in double quotes'' j))
      else if c = CHR ''['' then
        (case skip_ws (Suc i) cs of
           (j, r) \<Rightarrow>
             if starts_with '']'' r then Inr (JArr [], Suc j, tl r)
             else array_items n [] j r)
      else if starts_with ''null'' (c # cs) then Inr (JNull, i + 4, drop 4 (c # cs))
      else if starts_with ''true'' (c # cs) then Inr (JBool True, i + 4, drop 4 (c # cs))
      else if starts_with ''false'' (c # cs) then Inr (JBool False, i + 5, drop 5 (c # cs))
      else
        (case scan_number i (c # cs) of
           Some r \<Rightarrow> r
         | None \<Rightarrow>
             if starts_with ''NaN'' (c # cs) \<or> starts_with ''Infinity'' (c # cs)
                \<or> starts_with ''-Infinity'' (c # cs)
             then Inl Unmodelled
             else Inl (Expected ''Expecting value'' i)))"
| "object_members 0 pairs i s = Inl Unmodelled"
| "object_members (Suc n) pairs i s =
     (case scanstring (i - 1) [] i s of
        Inl e \<Rightarrow> Inl e
      | Inr (key, j, r) \<Rightarrow>
          (case skip_ws j r of
             (j1, r1) \<Rightarrow>
               if \<not> starts_with '':'' r1 then Inl (Expected ''Expecting ':' delimiter'' j1)
               else
                 (case skip_ws (Suc j1) (tl r1) of
                    (j2, r2) \<Rightarrow>
                      (case scan_once n j2 r2 of
                         Inl e \<Rightarrow> Inl e
                       | Inr (v, j3, r3) \<Rightarrow>
                           (case skip_ws j3 r3 of
                              (j4, r4) \<Rightarrow>
                                if starts_with ''}'' r4
                                then Inr (JObj (AList.update key v pairs), Suc j4, tl r4)
                                else if \<not> starts_with '','' r4
                                then Inl (Expected ''Expecting ',' delimiter'' j4)
                                else
                                  (case skip_ws (Suc j4) (tl r4) of
                                     (j5, r5) \<Rightarrow>
                                       if starts_with [CHR 0x22] r5
                                       then object_members n (AList.update key v pairs)
                                              (Suc j5) (tl r5)
                                       else Inl (Expected
                                         ''Expecting property name enclosed in double quotes''
                                         j5)))))))"
| "array_items 0 vals i s = Inl Unmodelled"
| "array_items (Suc n) vals i s =
     (case scan_once n i s of
        Inl e \<Rightarrow> Inl e
      | Inr (v, j, r) \<Rightarrow>
          (case skip_ws j r of
             (j1, r1) \<Rightarrow>
               if starts_with '']'' r1 then Inr (JArr (vals @ [v]), Suc j1, tl r1)
               else if \<not> starts_with '','' r1
               then Inl (Expected ''Expecting ',' delimiter'' j1)
               else
                 (case skip_ws (Suc j1) (tl r1) of
                    (j2, r2) \<Rightarrow> array_items n (vals @ [v]) j2 r2)))"

text \<open>The text of a \<^verbatim>\<open>JSONDecodeError\<close>: the message, then line, column and offset.\<close>

fun describe :: "string \<Rightarrow> decode_error \<Rightarrow> string" where
  "describe s (Expected msg pos) =
     msg @ '': line '' @ show_nat (Suc (count_list (take pos s) (CHR 0x0A)))
         @ '' column '' @ show_nat (Suc (length (takeWhile (\<lambda>c. c \<noteq> CHR 0x0A) (rev (take pos s)))))
         @ '' (char '' @ show_nat pos @ '')''"
| "describe s Too_many_digits = ''Exceeds the limit (4300 digits) for integer string conversion''"
| "describe s Unmodelled = ''Unmodelled''"

text \<open>The exception the decoder raises.\<close>

fun raised :: "string \<Rightarrow> decode_error \<Rightarrow> error" where
  "raised s (Expected msg pos) = JSONDecodeError (describe s (Expected msg pos))"
| "raised s Too_many_digits = ValueError"
| "raised s Unmodelled = JSONDecodeError (describe s Unmodelled)"

definition json_loads :: "string \<Rightarrow> error + json" where
  "json_loads s =
     (case skip_ws 0 s of
        (i, r) \<Rightarrow>
          (case scan_once (2 * length s + 2) i r of
             Inl e \<Rightarrow> Inl (raised s e)
           | Inr (v, j, r1) \<Rightarrow>
               (case skip_ws j r1 of
                  (k, r2) \<Rightarrow>
                    if r2 = [] then Inr v else Inl (raised s (Expected ''Extra data'' k)))))"

text \<open>The encoder with \<^verbatim>\<open>ensure_ascii\<close> and \<^verbatim>\<open>indent=4\<close>.\<close>

definition escape_char :: "char \<Rightarrow> string" where
  "escape_char c =
     (if c = CHR 0x22 then [CHR 0x5C, CHR 0x22]
      else if c = CHR 0x5C then [CHR 0x5C, CHR 0x5C]
      else if c = CHR 0x0A then [CHR 0x5C, CHR ''n'']
      else if c = CHR 0x0D then [CHR 0x5C, CHR ''r'']
      else if c = CHR 0x09 then [CHR 0x5C, CHR ''t'']
      else if c = CHR 0x08 then [CHR 0x5C, CHR ''b'']
      else if c = CHR 0x0C then [CHR 0x5C, CHR ''f'']
      else if 32 \<le> (of_char c :: nat) \<and> (of_char c :: nat) \<le> 126 then [c]
      else [CHR 0x5C, CHR ''u'', CHR ''0'', CHR ''0'',
            ''0123456789abcdef'' ! (of_char c div 16),
            ''0123456789abcdef'' ! (of_char c mod 16)])"

definition quote :: "string \<Rightarrow> string" where
  "quote s = CHR 0x22 # concat (map escape_char s) @ [CHR 0x22]"

fun join_with :: "string \<Rightarrow> string list \<Rightarrow> string" where
  "join_with sep [] = []"
| "join_with sep [x] = x"
| "join_with sep (x # y # ys) = x @ sep @ join_with sep (y # ys)"

definition newline_indent :: "nat \<Rightarrow> string" where
  "newline_indent level = CHR 0x0A # replicate (4 * level) (CHR '' '')"

fun dumps_level :: "nat \<Rightarrow> json \<Rightarrow> string" where
  "dumps_level level JNull = ''null''"
| "dumps_level level (JBool b) = (if b then ''true'' else ''false'')"
| "dumps_level level (JInt n) = show_int n"
| "dumps_level level (JStr s) = quote s"
| "dumps_level level (JArr xs) =
     (if xs = [] then ''[]''
      else ''['' @ newline_indent (Suc level)
           @ join_with ('','' @ newline_indent (Suc level)) (map (dumps_level (Suc level)) xs)
           @ newline_indent level @ '']'')"
| "dumps_level level (JObj m) =
     (if m = [] then ''{}''
      else ''{'' @ newline_indent (Suc level)
           @ join_with ('','' @ newline_indent (Suc level))
               (map (\<lambda>kv. quote (fst kv) @ '': '' @ dumps_level (Suc level) (snd kv)) m)
           @ newline_indent level @ ''}'')"

definition json_dumps :: "json \<Rightarrow> string" where
  "json_dumps v = dumps_level 0 v"

section \<open>Reading records in statements\<close>

text \<open>
  The value a dictionary holds under a key (\<open>None\<close> when the key is absent or the
  value is not a dictionary), and the same one level down.
\<close>

definition item :: "json \<Rightarrow> string \<Rightarrow> json option" where
  "item v k = (case v of JObj m \<Rightarrow> map_of m k | _ \<Rightarrow> None)"


text \<open>A dictionary without the listed keys; any other value as it is.\<close>

fun without_keys :: "string list \<Rightarrow> json \<Rightarrow> json" where
  "without_keys ks (JObj m) = JObj (filter (\<lambda>kv. fst kv \<notin> set ks) m)"
| "without_keys ks JNull = JNull"
| "without_keys ks (JBool b) = JBool b"
| "without_keys ks (JInt n) = JInt n"
| "without_keys ks (JStr s) = JStr s"
| "without_keys ks (JArr xs) = JArr xs"













section \<open>Example inputs\<close>

text \<open>A model that answers every prompt with the same text.\<close>

definition reply_with :: "string \<Rightarrow> json \<Rightarrow> bool \<Rightarrow> (string \<times> json) list \<Rightarrow> string" where
  "reply_with txt problem_description include_improved_diff parts = txt"


text \<open>A client that answers \<^verbatim>\<open>{}\<close> whatever the key and the prompt.\<close>

definition keyed_reply :: "string \<Rightarrow> json \<Rightarrow> bool \<Rightarrow> (string \<times> json) list \<Rightarrow> string" where
  "keyed_reply api_key = reply_with ''{}''"

definition example_reports :: "(string \<times> string) list" where
  "example_reports =
     [(''impl_1'', ''report 1''), (''impl_2'', ''report 2''),
      (''impl_3'', ''report 3''), (''impl_4'', ''report 4'')]"

definition example_diffs :: "json list" where
  "example_diffs = [JStr ''diff a'', JStr ''diff b'', JStr ''diff c'', JStr ''diff d'']"

definition empty_world :: world where
  "empty_world = \<lparr>files = Map.empty, dirs = {}, out = []\<rparr>"

text \<open>
  A stand-in for the shell: the command \<open>bad\<close> exits with status 2, every other
  command with status 0, and none of them touches the world.
\<close>

definition failing_at :: "string \<Rightarrow> string \<Rightarrow> world \<Rightarrow> int \<times> world" where
  "failing_at bad command w = (if command = bad then 2 else 0, w)"

text \<open>A task definition whose ticket identifier is the empty string.\<close>

definition blank_ticket_world :: world where
  "blank_ticket_world =
     \<lparr>files = map_of
        [(''automation_tool/task_data.json'', ''{\"jira_id\": \"\", \"repo_name\": \"demo\"}'')],
      dirs = {''automation_tool''},
      out = []\<rparr>"

text \<open>
  A second run for the ticket \<open>T-1\<close>: the folder and the metadata file of the first
  run are there, the file holding that run's evaluation.
\<close>

definition task_text :: string where
  "task_text =
     ''{\"jira_id\": \"T-1\", \"repo_name\": \"demo\", \"pr_description\": \"Fix it\", ''
     @ ''\"diff_1\": \"d1\", \"diff_2\": \"d2\", \"diff_3\": \"d3\", \"diff_4\": \"d4\"}''"

definition template_text :: string where
  "template_text =
     ''{\"task_id\": \"\", \"jira\": \"\", \"task_details\": {\"repo_name\": \"\"}, ''
     @ ''\"implementations\": [{\"diff_1\": \"\", \"task_success\": 0}, {\"diff_2\": \"\"}, ''
     @ ''{\"diff_3\": \"\"}, {\"diff_4\": \"\"}], ''
     @ ''\"evaluation\": {\"best_diff\": 0, \"preference_rationale\": \"\"}}''"

definition previous_text :: string where
  "previous_text =
     ''{\"task_id\": \"old-id\", \"jira\": \"T-1\", \"implementations\": [], ''
     @ ''\"evaluation\": {\"best_diff\": 3, \"preference_rationale\": \"old rationale\"}}''"

definition rerun_world :: world where
  "rerun_world =
     \<lparr>files = map_of
        [(''automation_tool/task_data.json'', task_text),
         (''tasks/metadata_base.json'', template_text),
         (''tasks/T-1/metadata.json'', previous_text)],
      dirs = {''automation_tool'', ''tasks'', ''tasks/T-1''},
      out = []\<rparr>"

definition task_record :: json where
  "task_record =
     JObj [(''jira_id'', JStr ''T-1''), (''repo_name'', JStr ''demo''),
           (''pr_description'', JStr ''Fix it''),
           (''diff_1'', JStr ''d1''), (''diff_2'', JStr ''d2''),
           (''diff_3'', JStr ''d3''), (''diff_4'', JStr ''d4'')]"

definition template_record :: json where
  "template_record =
     JObj [(''task_id'', JStr ''''), (''jira'', JStr ''''),
           (''task_details'', JObj [(''repo_name'', JStr '''')]),
           (''implementations'',
            JArr [JObj [(''diff_1'', JStr ''''), (''task_success'', JInt 0)],
                  JObj [(''diff_2'', JStr '''')],
                  JObj [(''diff_3'', JStr '''')],
                  JObj [(''diff_4'', JStr '''')]]),
           (''evaluation'',
            JObj [(''best_diff'', JInt 0), (''preference_rationale'', JStr '''')])]"

text \<open>The record the second run writes: the template with the task's fields.\<close>

definition seeded_record :: json where
  "seeded_record =
     JObj [(''task_id'', JStr ''new-id''), (''jira'', JStr ''T-1''),
           (''task_details'',
            JObj [(''repo_name'', JStr ''demo''), (''before_sha'', JStr ''''),
                  (''after_sha'', JStr ''''), (''pr_description'', JStr ''Fix it''),
                  (''reference_implementation_diff'', JStr '''')]),
           (''implementations'',
            JArr [JObj [(''diff_1'', JStr ''d1''), (''task_success'', JInt 0)],
                  JObj [(''diff_2'', JStr ''d2'')],
                  JObj [(''diff_3'', JStr ''d3'')],
                  JObj [(''diff_4'', JStr ''d4'')]]),
           (''evaluation'',
            JObj [(''best_diff'', JInt 0), (''preference_rationale'', JStr '''')])]"

text \<open>
  A task folder after the bootstrapper, with the four slots in a shuffled order, and an
  evaluation result: an entry for \<open>impl_1\<close>, one under a name that maps to no diff
  key, one for \<open>impl_3\<close>, and an evaluation that has only \<open>best_diff\<close>.
\<close>

definition metadata_text :: string where
  "metadata_text =
     ''{\"task_id\": \"id-7\", \"jira\": \"T-1\", \"task_details\": {\"repo_name\": \"demo\"}, ''
     @ ''\"implementations\": [{\"diff_2\": \"d2\"}, {\"diff_1\": \"d1\", \"comment\": \"old\"}, ''
     @ ''{\"diff_4\": \"d4\"}, {\"diff_3\": \"d3\"}], ''
     @ ''\"evaluation\": {\"best_diff\": 0, \"preference_rationale\": \"\", \"improved_diff\": \"keep\"}}''"

definition metadata_slots :: "json list" where
  "metadata_slots =
     [JObj [(''diff_2'', JStr ''d2'')],
      JObj [(''diff_1'', JStr ''d1''), (''comment'', JStr ''old'')],
      JObj [(''diff_4'', JStr ''d4'')],
      JObj [(''diff_3'', JStr ''d3'')]]"

definition metadata_record :: json where
  "metadata_record =
     JObj [(''task_id'', JStr ''id-7''), (''jira'', JStr ''T-1''),
           (''task_details'', JObj [(''repo_name'', JStr ''demo'')]),
           (''implementations'', JArr metadata_slots),
           (''evaluation'',
            JObj [(''best_diff'', JInt 0), (''preference_rationale'', JStr []),
                  (''improved_diff'', JStr ''keep'')])]"

definition merge_world :: world where
  "merge_world =
     \<lparr>files = map_of [(''tasks/T-1/metadata.json'', metadata_text)],
      dirs = {''tasks'', ''tasks/T-1''},
      out = []\<rparr>"

definition score_entry :: "string \<Rightarrow> int \<Rightarrow> int \<Rightarrow> string \<Rightarrow> json" where
  "score_entry name task_success instruction_following comment =
     JObj [(''name'', JStr name), (''task_success'', JInt task_success),
           (''instruction_following'', JInt instruction_following),
           (''comment'', JStr comment)]"





text \<open>
  A result whose first entry is a number and whose second entry has a known name but
  no \<open>instruction_following\<close> and no \<open>comment\<close>.
\<close>

definition broken_result :: json where
  "broken_result =
     JObj [(''implementations'',
            JArr [JInt 7, JObj [(''name'', JStr ''impl_1''), (''task_success'', JInt 3)]])]"

text \<open>The same incomplete entry behind a complete one.\<close>

definition incomplete_result :: json where
  "incomplete_result =
     JObj [(''implementations'',
            JArr [score_entry ''impl_2'' 4 4 ''fine'',
                  JObj [(''name'', JStr ''impl_1''), (''task_success'', JInt 3)]])]"

section \<open>Basic facts\<close>

lemma and_then_simps [simp]:
  "and_then (Inl e) f = Inl e" "and_then (Inr x) f = f x"
  by (simp_all add: and_then_def)


lemma on_success_simps [simp]:
  "on_success (Inl e) w f = (Inl e, w)" "on_success (Inr x) w f = f x"
  by (simp_all add: on_success_def)

section \<open>The brace span\<close>

lemma str_find_None: "str_find c s = None \<longleftrightarrow> c \<notin> set s"
  by (induction s) auto

lemma str_rfind_None: "str_rfind c s = None \<longleftrightarrow> c \<notin> set s"
  by (induction s) (auto split: option.splits)

lemma str_find_notin: "c \<notin> set s \<Longrightarrow> str_find c s = None"
  by (simp add: str_find_None)

lemma str_rfind_notin: "c \<notin> set s \<Longrightarrow> str_rfind c s = None"
  by (simp add: str_rfind_None)

lemma str_find_Some:
  "str_find c s = Some f \<Longrightarrow> f < length s \<and> s ! f = c \<and> (\<forall>i<f. s ! i \<noteq> c)"
proof (induction s arbitrary: f)
  case Nil
  then show ?case by simp
next
  case (Cons x xs)
  show ?case
  proof (cases "x = c")
    case True
    with Cons.prems show ?thesis by simp
  next
    case False
    with Cons.prems obtain g where g: "str_find c xs = Some g" "f = Suc g"
      by auto
    from Cons.IH [OF g(1)] False g(2) show ?thesis
      by (auto simp: nth_Cons split: nat.splits)
  qed
qed

lemma str_rfind_Some:
  "str_rfind c s = Some l \<Longrightarrow>
     l < length s \<and> s ! l = c \<and> (\<forall>i. l < i \<and> i < length s \<longrightarrow> s ! i \<noteq> c)"
proof (induction s arbitrary: l)
  case Nil
  then show ?case by simp
next
  case (Cons x xs)
  show ?case
  proof (cases "str_rfind c xs")
    case None
    then have "c \<notin> set xs" by (simp add: str_rfind_None)
    moreover from None Cons.prems have "x = c" "l = 0" by (auto split: if_splits)
    ultimately show ?thesis by (auto simp: nth_Cons split: nat.splits)
  next
    case (Some g)
    with Cons.prems have l: "l = Suc g" by simp
    from Cons.IH [OF Some] l show ?thesis
      by (auto simp: nth_Cons split: nat.splits)
  qed
qed

lemma str_find_append: "c \<notin> set pre \<Longrightarrow> str_find c (pre @ c # rest) = Some (length pre)"
  by (induction pre) auto

lemma str_rfind_append: "c \<notin> set post \<Longrightarrow> str_rfind c (xs @ c # post) = Some (length xs)"
  by (induction xs) (simp_all add: str_rfind_notin)

lemma json_str_embedded:
  assumes "CHR ''{'' \<notin> set pre" and "CHR ''}'' \<notin> set post"
  shows "json_str (pre @ CHR ''{'' # body @ CHR ''}'' # post) = CHR ''{'' # body @ ''}''"
proof -
  have f: "str_find (CHR ''{'') (pre @ CHR ''{'' # body @ CHR ''}'' # post) = Some (length pre)"
    using assms(1) by (rule str_find_append)
  have "str_rfind (CHR ''}'') ((pre @ CHR ''{'' # body) @ CHR ''}'' # post)
          = Some (length (pre @ CHR ''{'' # body))"
    using assms(2) by (rule str_rfind_append)
  then have l: "str_rfind (CHR ''}'') (pre @ CHR ''{'' # body @ CHR ''}'' # post)
          = Some (length pre + Suc (length body))"
    by simp
  show ?thesis
    by (simp add: json_str_def f l slice_def)
qed

lemma json_str_whole:
  "CHR ''{'' \<notin> set content \<or> CHR ''}'' \<notin> set content \<Longrightarrow> json_str content = content"
  by (auto simp: json_str_def str_find_notin str_rfind_notin split: option.splits)

lemma json_str_span:
  assumes "CHR ''{'' \<in> set content" and "CHR ''}'' \<in> set content"
  shows "\<exists>f l. f < length content \<and> content ! f = CHR ''{'' \<and> (\<forall>i<f. content ! i \<noteq> CHR ''{'')
           \<and> l < length content \<and> content ! l = CHR ''}''
           \<and> (\<forall>i. l < i \<and> i < length content \<longrightarrow> content ! i \<noteq> CHR ''}'')
           \<and> json_str content = drop f (take (Suc l) content)"
proof -
  from assms obtain f l where
    f: "str_find (CHR ''{'') content = Some f" and l: "str_rfind (CHR ''}'') content = Some l"
    using str_find_None str_rfind_None by (metis not_Some_eq)
  have "json_str content = drop f (take (Suc l) content)"
    by (simp add: json_str_def f l slice_def)
  with str_find_Some [OF f] str_rfind_Some [OF l] show ?thesis by blast
qed

lemma user_prompt_example:
  "user_prompt example_reports example_diffs =
     Inr [(''report 1'', JStr ''diff a''), (''report 2'', JStr ''diff b''),
          (''report 3'', JStr ''diff c''), (''report 4'', JStr ''diff d'')]"
  by (simp add: user_prompt_def prompt_part_def example_reports_def example_diffs_def)

section \<open>The fallback on a reply that does not decode\<close>











section \<open>What the response parser decodes\<close>

text \<open>
  C3, as amended. For every reply text: when either brace is missing the whole text is
  what \<open>analyze_implementations\<close> hands to the decoder; when both are there it is
  the text from the first \<open>{\<close> to the last \<open>}\<close>, both included; the function
  returns what the decoder makes of that text (the fallback on a
  \<^verbatim>\<open>JSONDecodeError\<close>, any other exception as it is). In particular, for a reply made
  of an object's text (from its \<open>{\<close> to its \<open>}\<close>) between a prefix that has no
  \<open>{\<close> and a suffix that has no \<open>}\<close>, the function returns exactly what the
  object's text decodes to.
\<close>

theorem response_parser_brace_span:
  "(CHR ''{'' \<notin> set content \<or> CHR ''}'' \<notin> set content \<longrightarrow> json_str content = content) \<and>
   (CHR ''{'' \<in> set content \<and> CHR ''}'' \<in> set content \<longrightarrow>
      (\<exists>f l. f < length content \<and> content ! f = CHR ''{'' \<and> (\<forall>i<f. content ! i \<noteq> CHR ''{'')
         \<and> l < length content \<and> content ! l = CHR ''}''
         \<and> (\<forall>i. l < i \<and> i < length content \<longrightarrow> content ! i \<noteq> CHR ''}'')
         \<and> json_str content = drop f (take (Suc l) content))) \<and>
   (user_prompt reports implementations = Inr parts \<and>
    llm problem_description include_improved_diff parts = content \<longrightarrow>
      analyze_implementations loads llm problem_description reports implementations
        include_improved_diff w =
      (case loads (json_str content) of
         Inr v \<Rightarrow> (Inr v, w)
       | Inl e \<Rightarrow>
           (case e of
              JSONDecodeError msg \<Rightarrow>
                (Inr fallback_result,
                 w\<lparr>out := out w @ [''Error decoding JSON: '' @ msg,
                                     ''Raw response content: '' @ content]\<rparr>)
            | _ \<Rightarrow> (Inl e, w)))) \<and>
   (CHR ''{'' \<notin> set pre \<and> CHR ''}'' \<notin> set post \<and>
    loads (CHR ''{'' # body @ ''}'') = Inr v \<and>
    user_prompt reports implementations = Inr parts \<and>
    llm problem_description include_improved_diff parts = pre @ CHR ''{'' # body @ ''}'' @ post \<longrightarrow>
      analyze_implementations loads llm problem_description reports implementations
        include_improved_diff w = (Inr v, w))"
proof (intro conjI impI)
  assume "CHR ''{'' \<notin> set content \<or> CHR ''}'' \<notin> set content"
  then show "json_str content = content" by (rule json_str_whole)
next
  assume "CHR ''{'' \<in> set content \<and> CHR ''}'' \<in> set content"
  then show "\<exists>f l. f < length content \<and> content ! f = CHR ''{'' \<and> (\<forall>i<f. content ! i \<noteq> CHR ''{'')
         \<and> l < length content \<and> content ! l = CHR ''}''
         \<and> (\<forall>i. l < i \<and> i < length content \<longrightarrow> content ! i \<noteq> CHR ''}'')
         \<and> json_str content = drop f (take (Suc l) content)"
    using json_str_span by blast
next
  assume "user_prompt reports implementations = Inr parts \<and>
    llm problem_description include_improved_diff parts = content"
  then show "analyze_implementations loads llm problem_description reports implementations
        include_improved_diff w =
      (case loads (json_str content) of
         Inr v \<Rightarrow> (Inr v, w)
       | Inl e \<Rightarrow>
           (case e of
              JSONDecodeError msg \<Rightarrow>
                (Inr fallback_result,
                 w\<lparr>out := out w @ [''Error decoding JSON: '' @ msg,
                                     ''Raw response content: '' @ content]\<rparr>)
            | _ \<Rightarrow> (Inl e, w)))"
    by (auto simp: analyze_implementations_def print_line_def split: sum.splits error.splits)
next
  assume a: "CHR ''{'' \<notin> set pre \<and> CHR ''}'' \<notin> set post \<and>
    loads (CHR ''{'' # body @ ''}'') = Inr v \<and>
    user_prompt reports implementations = Inr parts \<and>
    llm problem_description include_improved_diff parts = pre @ CHR ''{'' # body @ ''}'' @ post"
  then have "json_str (pre @ CHR ''{'' # body @ ''}'' @ post) = CHR ''{'' # body @ ''}''"
    using json_str_embedded [of pre post body] by simp
  with a show "analyze_implementations loads llm problem_description reports implementations
        include_improved_diff w = (Inr v, w)"
    by (simp add: analyze_implementations_def)
qed

lemma embedded_object_decoding:
  "json_loads ''{\"implementations\": [], \"evaluation\": {\"best_diff\": 2}}'' =
     Inr (JObj [(''implementations'', JArr []), (''evaluation'', JObj [(''best_diff'', JInt 2)])])"
  by code_simp

theorem response_parser_brace_span_witness:
  "json_str ''I cannot comply.'' = ''I cannot comply.'' \<and>
   json_str ''ok {\"a\": 1} done'' = drop 3 (take (Suc 10) ''ok {\"a\": 1} done'') \<and>
   analyze_implementations json_loads
     (reply_with ''Here is the result: {\"implementations\": [], \"evaluation\": {\"best_diff\": 2}} Thanks.'')
     (JStr ''task'') example_reports example_diffs False empty_world =
   (Inr (JObj [(''implementations'', JArr []), (''evaluation'', JObj [(''best_diff'', JInt 2)])]),
    empty_world)"
proof -
  let ?obj = "''\"implementations\": [], \"evaluation\": {\"best_diff\": 2}''"
  have "analyze_implementations json_loads
     (reply_with (''Here is the result: '' @ CHR ''{'' # ?obj @ ''}'' @ '' Thanks.''))
     (JStr ''task'') example_reports example_diffs False empty_world =
   (Inr (JObj [(''implementations'', JArr []), (''evaluation'', JObj [(''best_diff'', JInt 2)])]),
    empty_world)"
    using response_parser_brace_span [of "''I cannot comply.''" example_reports example_diffs _
        "reply_with (''Here is the result: '' @ CHR ''{'' # ?obj @ ''}'' @ '' Thanks.'')"
        "JStr ''task''" False json_loads empty_world
        "''Here is the result: ''" "'' Thanks.''" ?obj]
      user_prompt_example embedded_object_decoding
    by (simp add: reply_with_def)
  moreover have "json_str ''I cannot comply.'' = ''I cannot comply.''"
    using response_parser_brace_span [of "''I cannot comply.''"] by simp
  moreover have "json_str ''ok {\"a\": 1} done'' = drop 3 (take (Suc 10) ''ok {\"a\": 1} done'')"
    by code_simp
  ultimately show ?thesis by simp
qed

text \<open>
  The claim as first stated, for any surrounding prose, fails: a brace in the prefix
  moves the span. The object \<^verbatim>\<open>{"a": 1}\<close> alone decodes, the reply
  \<^verbatim>\<open>Note {draft}: {"a": 1} Thanks.\<close> gives the fallback.
\<close>

theorem response_parser_braces_in_prose_counterexample:
  "json_loads ''{\"a\": 1}'' = Inr (JObj [(''a'', JInt 1)]) \<and>
   fst (analyze_implementations json_loads (reply_with ''Note {draft}: {\"a\": 1} Thanks.'')
     (JStr ''task'') example_reports example_diffs False empty_world) = Inr fallback_result \<and>
   fallback_result \<noteq> JObj [(''a'', JInt 1)]"
  by code_simp

section \<open>A closing brace before the first opening brace\<close>





section \<open>A failing command ends the run\<close>

lemma run_commands_append:
  "run_commands exec (xs @ ys) w =
     (case run_commands exec xs w of
        (Inl e, w1) \<Rightarrow> (Inl e, w1)
      | (Inr u, w1) \<Rightarrow> run_commands exec ys w1)"
proof (induction xs arbitrary: w)
  case Nil
  then show ?case by simp
next
  case (Cons x xs)
  show ?case
  proof (cases "run_command exec x w")
    case (Pair r w1)
    then show ?thesis
      using Cons.IH [of w1] by (cases r) simp_all
  qed
qed

text \<open>
  C5. When the commands before one have all exited with status 0 and that one exits with
  another status, the loop ends there with \<^verbatim>\<open>sys.exit(1)\<close>: the world is the one the
  failing command left, with only the error line printed after it, whatever commands come
  later in the list. For the list of \<open>main\<close> the whole run ends in that same state, so
  no later command and no step of the bootstrapper has run.
\<close>

theorem run_commands_halt_on_failure:
  assumes "run_commands exec before w = (Inr (), w1)"
    and "exec command (print_line (''Executing: '' @ command) w1) = (returncode, w2)"
    and "returncode \<noteq> 0"
  shows "run_commands exec (before @ command # later) w =
           (Inl (SystemExit 1),
            print_line (''Error: Command failed with exit code '' @ show_int returncode) w2) \<and>
         (commands = before @ command # later \<longrightarrow>
            main loads dumps exec chat_openai api_key task_id w =
              (Inl (SystemExit 1),
               print_line (''Error: Command failed with exit code '' @ show_int returncode) w2))"
proof -
  have "run_command exec command w1 =
          (Inl (SystemExit 1),
           print_line (''Error: Command failed with exit code '' @ show_int returncode) w2)"
    using assms(2,3) by (simp add: run_command_def)
  then have r: "run_commands exec (before @ command # later) w =
           (Inl (SystemExit 1),
            print_line (''Error: Command failed with exit code '' @ show_int returncode) w2)"
    using assms(1) by (simp add: run_commands_append)
  have "main loads dumps exec chat_openai api_key task_id w =
          (Inl (SystemExit 1),
           print_line (''Error: Command failed with exit code '' @ show_int returncode) w2)"
    if c: "commands = before @ command # later"
    unfolding main_def excecute_commands_def c using r by (simp add: Let_def)
  with r show ?thesis by blast
qed

lemma commands_split:
  "commands = take 3 commands @ commands ! 3 # drop 4 commands"
  by (simp add: commands_def)

lemma first_three_succeed:
  "run_commands (failing_at (commands ! 3)) (take 3 commands) empty_world =
     (Inr (),
      \<lparr>files = Map.empty, dirs = {},
       out = [''Executing: '' @ commands ! 0, ''Command completed successfully.'',
              ''Executing: '' @ commands ! 1, ''Command completed successfully.'',
              ''Executing: '' @ commands ! 2, ''Command completed successfully.'']\<rparr>)"
  by (simp add: commands_def failing_at_def run_command_def print_line_def empty_world_def)

theorem run_commands_halt_on_failure_witness:
  "main json_loads json_dumps (failing_at (commands ! 3)) keyed_reply ''key'' ''id-1'' empty_world =
     (Inl (SystemExit 1),
      \<lparr>files = Map.empty, dirs = {},
       out = [''Executing: '' @ commands ! 0, ''Command completed successfully.'',
              ''Executing: '' @ commands ! 1, ''Command completed successfully.'',
              ''Executing: '' @ commands ! 2, ''Command completed successfully.'',
              ''Executing: '' @ commands ! 3, ''Error: Command failed with exit code 2'']\<rparr>)"
proof -
  have e: "failing_at (commands ! 3) (commands ! 3)
             (print_line (''Executing: '' @ commands ! 3)
               \<lparr>files = Map.empty, dirs = {},
                out = [''Executing: '' @ commands ! 0, ''Command completed successfully.'',
                       ''Executing: '' @ commands ! 1, ''Command completed successfully.'',
                       ''Executing: '' @ commands ! 2, ''Command completed successfully.'']\<rparr>) =
           (2, \<lparr>files = Map.empty, dirs = {},
                out = [''Executing: '' @ commands ! 0, ''Command completed successfully.'',
                       ''Executing: '' @ commands ! 1, ''Command completed successfully.'',
                       ''Executing: '' @ commands ! 2, ''Command completed successfully.'',
                       ''Executing: '' @ commands ! 3]\<rparr>)"
    by (simp add: failing_at_def print_line_def)
  have s: "show_int 2 = ''2''"
    by (simp add: show_int_def)
  from run_commands_halt_on_failure [OF first_three_succeed e, of "drop 4 commands"
      json_loads json_dumps keyed_reply "''key''" "''id-1''"] commands_split
  show ?thesis
    by (simp add: print_line_def s)
qed

section \<open>A ticket identifier that is missing or falsy\<close>

text \<open>
  C9. When the task definition is a dictionary in which \<open>jira_id\<close> is absent or has a
  falsy value (\<^verbatim>\<open>None\<close>, \<^verbatim>\<open>False\<close>, 0, the empty string, list or dictionary),
  \<open>create_task_folder_and_metadata\<close> prints the error line and exits with status 1;
  the files and the directories are as they were.
\<close>

theorem bootstrapper_rejects_falsy_ticket:
  assumes "files w task_data_path = Some txt"
    and "loads txt = Inr (JObj task_data)"
    and "map_of task_data ''jira_id'' = None \<or>
         (\<exists>v. map_of task_data ''jira_id'' = Some v \<and> \<not> truthy v)"
  shows "create_task_folder_and_metadata loads dumps task_id w task_data_path =
           (Inl (SystemExit 1),
            w\<lparr>out := out w @ [''Error: jira_id not found in task_data.json'']\<rparr>)"
  using assms
  by (auto simp: create_task_folder_and_metadata_def path_exists_def read_text_def decode_def
      print_line_def)

lemma blank_ticket_decoding:
  "json_loads ''{\"jira_id\": \"\", \"repo_name\": \"demo\"}'' =
     Inr (JObj [(''jira_id'', JStr []), (''repo_name'', JStr ''demo'')])"
  by code_simp

theorem bootstrapper_rejects_falsy_ticket_witness:
  "create_task_folder_and_metadata json_loads json_dumps ''new-id'' blank_ticket_world
     ''automation_tool/task_data.json'' =
   (Inl (SystemExit 1),
    blank_ticket_world\<lparr>out := [''Error: jira_id not found in task_data.json'']\<rparr>)"
  using bootstrapper_rejects_falsy_ticket [of blank_ticket_world
      "''automation_tool/task_data.json''" _ json_loads _ json_dumps "''new-id''",
      OF _ blank_ticket_decoding]
  by (simp add: blank_ticket_world_def)

section \<open>A second run of the bootstrapper\<close>

lemma dir_prefixes_length:
  "q \<in> set (dir_prefixes seen s) \<Longrightarrow> length q \<le> length seen + length s"
proof (induction s arbitrary: seen)
  case Nil
  then show ?case by simp
next
  case (Cons c cs)
  from Cons.prems have "q = seen \<or> q \<in> set (dir_prefixes (seen @ [c]) cs)"
    by (auto split: if_splits)
  then show ?case
  proof
    assume "q = seen"
    then show ?thesis by simp
  next
    assume "q \<in> set (dir_prefixes (seen @ [c]) cs)"
    from Cons.IH [OF this] show ?thesis by simp
  qed
qed

lemma ancestors_length: "q \<in> set (ancestors p) \<Longrightarrow> length q \<le> length p"
  using dir_prefixes_length [of q "[]" p] by (simp add: ancestors_def)

lemma metadata_path_longer: "length task_folder < length (path_join task_folder ''metadata.json'')"
  by (simp add: path_join_def)

lemma metadata_path_no_ancestor:
  "path_join task_folder ''metadata.json'' \<notin> set (ancestors task_folder)"
  using ancestors_length [of "path_join task_folder ''metadata.json''" task_folder]
    metadata_path_longer [of task_folder]
  by auto

lemma makedirs_files:
  "makedirs w p = Inr w1 \<Longrightarrow> files w1 = files w \<and> out w1 = out w"
  by (auto simp: makedirs_def split: if_splits)

lemma makedirs_other_file:
  assumes "makedirs w p = Inr w1" and "mp \<notin> set (ancestors p)"
  shows "makedirs (w\<lparr>files := (files w)(mp := x)\<rparr>) p = Inr (w1\<lparr>files := (files w)(mp := x)\<rparr>)"
proof (cases "p \<in> dirs w")
  case True
  with assms(1) show ?thesis by (simp add: makedirs_def)
next
  case False
  with assms(1) have n: "\<not> (\<exists>q \<in> set (ancestors p). files w q \<noteq> None)"
    and w1: "w1 = w\<lparr>dirs := dirs w \<union> set (ancestors p)\<rparr>"
    by (auto simp: makedirs_def split: if_splits)
  from n assms(2) have "\<not> (\<exists>q \<in> set (ancestors p). ((files w)(mp := x)) q \<noteq> None)"
    by auto
  with False w1 show ?thesis by (simp add: makedirs_def)
qed

lemma seed_metadata_success:
  assumes "seed_metadata loads dumps task_id w task_data jira = (Inr task_folder, w')"
  shows "task_folder = path_join ''tasks'' jira \<and>
    (\<exists>w1 tmpl template metadata.
       makedirs w task_folder = Inr w1 \<and>
       ''tasks/metadata_base.json'' \<noteq> path_join task_folder ''metadata.json'' \<and>
       files w ''tasks/metadata_base.json'' = Some tmpl \<and>
       path_join task_folder ''metadata.json'' \<notin> dirs w1 \<and>
       loads tmpl = Inr template \<and>
       populate template task_data task_id = Inr metadata \<and>
       w' = w1\<lparr>files := (files w)(path_join task_folder ''metadata.json'' \<mapsto> dumps metadata),
               out := out w @ [''Created folder: '' @ task_folder,
                               ''Copied metadata_base.json to '' @ task_folder,
                               ''Updated metadata.json in '' @ task_folder
                                 @ '' with task_id: '' @ task_id]\<rparr>)"
proof -
  let ?tf = "path_join ''tasks'' jira"
  let ?mp = "path_join ?tf ''metadata.json''"
  from assms obtain w1 where w1: "makedirs w ?tf = Inr w1"
    by (cases "makedirs w ?tf") (simp_all add: seed_metadata_def Let_def)
  note f = makedirs_files [OF w1]
  let ?w2 = "print_line (''Created folder: '' @ ?tf) w1"
  from assms w1 obtain w3 where w3: "copyfile ?w2 ''tasks/metadata_base.json'' ?mp = Inr w3"
    by (cases "copyfile ?w2 ''tasks/metadata_base.json'' ?mp") (simp_all add: seed_metadata_def Let_def)
  then obtain tmpl where ne: "''tasks/metadata_base.json'' \<noteq> ?mp"
    and tmpl: "files w ''tasks/metadata_base.json'' = Some tmpl"
    and nd: "?mp \<notin> dirs w1"
    and w3': "w3 = ?w2\<lparr>files := (files w)(?mp \<mapsto> tmpl)\<rparr>"
    using f
    by (auto simp: copyfile_def write_text_def print_line_def split: if_splits option.splits)
  let ?w4 = "print_line (''Copied metadata_base.json to '' @ ?tf) w3"
  have r: "read_text ?w4 ?mp = Inr tmpl"
    by (simp add: read_text_def print_line_def w3')
  from assms w1 w3 r obtain template where t: "loads tmpl = Inr template"
    by (cases "loads tmpl") (simp_all add: seed_metadata_def Let_def decode_def)
  from assms w1 w3 r t obtain metadata where m: "populate template task_data task_id = Inr metadata"
    by (cases "populate template task_data task_id")
      (simp_all add: seed_metadata_def Let_def decode_def)
  from assms w1 w3 r t m nd f have
    "task_folder = ?tf"
    "w' = w1\<lparr>files := (files w)(?mp \<mapsto> dumps metadata),
               out := out w @ [''Created folder: '' @ ?tf,
                               ''Copied metadata_base.json to '' @ ?tf,
                               ''Updated metadata.json in '' @ ?tf
                                 @ '' with task_id: '' @ task_id]\<rparr>"
    by (auto simp: seed_metadata_def Let_def decode_def write_text_def print_line_def w3')
  with w1 ne tmpl nd t m show ?thesis by blast
qed


lemma seed_metadata_run:
  assumes "makedirs w (path_join ''tasks'' jira) = Inr w1"
    and "''tasks/metadata_base.json'' \<noteq> path_join (path_join ''tasks'' jira) ''metadata.json''"
    and "files w ''tasks/metadata_base.json'' = Some tmpl"
    and "path_join (path_join ''tasks'' jira) ''metadata.json'' \<notin> dirs w1"
    and "loads tmpl = Inr template"
    and "populate template task_data task_id = Inr metadata"
  shows "seed_metadata loads dumps task_id w task_data jira =
    (Inr (path_join ''tasks'' jira),
     w1\<lparr>files := (files w)(path_join (path_join ''tasks'' jira) ''metadata.json'' \<mapsto> dumps metadata),
        out := out w @ [''Created folder: '' @ path_join ''tasks'' jira,
                        ''Copied metadata_base.json to '' @ path_join ''tasks'' jira,
                        ''Updated metadata.json in '' @ path_join ''tasks'' jira
                          @ '' with task_id: '' @ task_id]\<rparr>)"
  using assms makedirs_files [OF assms(1)]
  by (simp add: seed_metadata_def Let_def copyfile_def write_text_def print_line_def
      read_text_def decode_def)

lemma create_success:
  assumes "create_task_folder_and_metadata loads dumps task_id w task_data_path =
             (Inr task_folder, w')"
  shows "\<exists>tx task_data jira.
           files w task_data_path = Some tx \<and> loads tx = Inr task_data \<and>
           dict_get task_data ''jira_id'' JNull = Inr (JStr jira) \<and> jira \<noteq> [] \<and>
           seed_metadata loads dumps task_id w task_data jira = (Inr task_folder, w')"
proof -
  from assms obtain tx where rd: "files w task_data_path = Some tx"
    by (cases "files w task_data_path")
      (auto simp: create_task_folder_and_metadata_def read_text_def split: if_splits)
  from assms rd obtain task_data where td: "loads tx = Inr task_data"
    by (cases "loads tx")
      (auto simp: create_task_folder_and_metadata_def read_text_def decode_def split: if_splits)
  from assms rd td obtain jira_id where j: "dict_get task_data ''jira_id'' JNull = Inr jira_id"
    by (cases "dict_get task_data ''jira_id'' JNull")
      (auto simp: create_task_folder_and_metadata_def read_text_def decode_def split: if_splits)
  from assms rd td j obtain jira where "jira_id = JStr jira" "jira \<noteq> []"
    "seed_metadata loads dumps task_id w task_data jira = (Inr task_folder, w')"
    by (cases jira_id)
      (auto simp: create_task_folder_and_metadata_def read_text_def decode_def split: if_splits)
  with rd td j show ?thesis by blast
qed

lemma create_run:
  assumes "files w task_data_path = Some tx" and "loads tx = Inr task_data"
    and "dict_get task_data ''jira_id'' JNull = Inr (JStr jira)" and "jira \<noteq> []"
  shows "create_task_folder_and_metadata loads dumps task_id w task_data_path =
           seed_metadata loads dumps task_id w task_data jira"
  using assms
  by (simp add: create_task_folder_and_metadata_def path_exists_def read_text_def decode_def)

text \<open>
  C6. When a run of the bootstrapper returns a task folder, the metadata file of that
  folder holds the encoding of the template's record after the stores of the task's
  fields and of the new task identifier, and nothing else in the files has changed. What
  the metadata file held before the run has no part in it: had the file been absent or
  held any other text, the run would have ended in the same world. (The path of the task
  definition is taken to differ from the metadata file's.)
\<close>

theorem bootstrapper_resets_metadata:
  assumes "create_task_folder_and_metadata loads dumps task_id w task_data_path =
             (Inr task_folder, w')"
    and "task_data_path \<noteq> path_join task_folder ''metadata.json''"
  shows "(\<exists>tx task_data tmpl template metadata.
            files w task_data_path = Some tx \<and> loads tx = Inr task_data \<and>
            files w ''tasks/metadata_base.json'' = Some tmpl \<and> loads tmpl = Inr template \<and>
            populate template task_data task_id = Inr metadata \<and>
            files w' = (files w)(path_join task_folder ''metadata.json'' \<mapsto> dumps metadata)) \<and>
         create_task_folder_and_metadata loads dumps task_id
           (w\<lparr>files := (files w)(path_join task_folder ''metadata.json'' := previous)\<rparr>)
           task_data_path = (Inr task_folder, w')"
proof -
  let ?mp = "path_join task_folder ''metadata.json''"
  let ?v = "w\<lparr>files := (files w)(?mp := previous)\<rparr>"
  from create_success [OF assms(1)] obtain tx task_data jira where
    rd: "files w task_data_path = Some tx" and td: "loads tx = Inr task_data" and
    j: "dict_get task_data ''jira_id'' JNull = Inr (JStr jira)" "jira \<noteq> []" and
    seed: "seed_metadata loads dumps task_id w task_data jira = (Inr task_folder, w')"
    by blast
  from seed_metadata_success [OF seed] obtain w1 tmpl template metadata where
    tf: "task_folder = path_join ''tasks'' jira" and
    w1: "makedirs w task_folder = Inr w1" and
    ne: "''tasks/metadata_base.json'' \<noteq> ?mp" and
    tmpl: "files w ''tasks/metadata_base.json'' = Some tmpl" and
    nd: "?mp \<notin> dirs w1" and
    t: "loads tmpl = Inr template" and
    m: "populate template task_data task_id = Inr metadata" and
    w': "w' = w1\<lparr>files := (files w)(?mp \<mapsto> dumps metadata),
               out := out w @ [''Created folder: '' @ task_folder,
                               ''Copied metadata_base.json to '' @ task_folder,
                               ''Updated metadata.json in '' @ task_folder
                                 @ '' with task_id: '' @ task_id]\<rparr>"
    by blast
  have first: "\<exists>tx task_data tmpl template metadata.
            files w task_data_path = Some tx \<and> loads tx = Inr task_data \<and>
            files w ''tasks/metadata_base.json'' = Some tmpl \<and> loads tmpl = Inr template \<and>
            populate template task_data task_id = Inr metadata \<and>
            files w' = (files w)(?mp \<mapsto> dumps metadata)"
    using rd td tmpl t m w' by auto
  have v1: "makedirs ?v task_folder = Inr (w1\<lparr>files := (files w)(?mp := previous)\<rparr>)"
    using w1 metadata_path_no_ancestor by (rule makedirs_other_file)
  have "seed_metadata loads dumps task_id ?v task_data jira =
    (Inr (path_join ''tasks'' jira),
     (w1\<lparr>files := (files w)(?mp := previous)\<rparr>)
       \<lparr>files := (files ?v)(path_join (path_join ''tasks'' jira) ''metadata.json'' \<mapsto> dumps metadata),
        out := out ?v @ [''Created folder: '' @ path_join ''tasks'' jira,
                        ''Copied metadata_base.json to '' @ path_join ''tasks'' jira,
                        ''Updated metadata.json in '' @ path_join ''tasks'' jira
                          @ '' with task_id: '' @ task_id]\<rparr>)"
  proof (rule seed_metadata_run)
    show "makedirs ?v (path_join ''tasks'' jira) = Inr (w1\<lparr>files := (files w)(?mp := previous)\<rparr>)"
      using v1 tf by simp
    show "''tasks/metadata_base.json'' \<noteq> path_join (path_join ''tasks'' jira) ''metadata.json''"
      using ne tf by simp
    show "files ?v ''tasks/metadata_base.json'' = Some tmpl"
      using tmpl ne by simp
    show "path_join (path_join ''tasks'' jira) ''metadata.json''
            \<notin> dirs (w1\<lparr>files := (files w)(?mp := previous)\<rparr>)"
      using nd tf by simp
    show "loads tmpl = Inr template" by (rule t)
    show "populate template task_data task_id = Inr metadata" by (rule m)
  qed
  then have "seed_metadata loads dumps task_id ?v task_data jira = (Inr task_folder, w')"
    using tf w' by simp
  moreover have "create_task_folder_and_metadata loads dumps task_id ?v task_data_path =
      seed_metadata loads dumps task_id ?v task_data jira"
    using rd td j assms(2) by (intro create_run) simp_all
  ultimately show ?thesis using first by simp
qed


lemma task_text_decoding: "json_loads task_text = Inr task_record"
  by code_simp

lemma template_text_decoding: "json_loads template_text = Inr template_record"
  by code_simp

lemma populate_example: "populate template_record task_record ''new-id'' = Inr seeded_record"
  by code_simp

lemma rerun_first:
  "create_task_folder_and_metadata json_loads json_dumps ''new-id'' rerun_world
     ''automation_tool/task_data.json'' =
   (Inr ''tasks/T-1'',
    rerun_world\<lparr>files := (files rerun_world)(''tasks/T-1/metadata.json'' \<mapsto> json_dumps seeded_record),
      out := [''Created folder: tasks/T-1'', ''Copied metadata_base.json to tasks/T-1'',
              ''Updated metadata.json in tasks/T-1 with task_id: new-id'']\<rparr>)"
proof -
  have j: "path_join ''tasks'' ''T-1'' = ''tasks/T-1''"
    "path_join ''tasks/T-1'' ''metadata.json'' = ''tasks/T-1/metadata.json''"
    by (simp_all add: path_join_def)
  have "create_task_folder_and_metadata json_loads json_dumps ''new-id'' rerun_world
     ''automation_tool/task_data.json'' =
     seed_metadata json_loads json_dumps ''new-id'' rerun_world task_record ''T-1''"
    by (rule create_run [where loads = json_loads and tx = task_text, OF _ task_text_decoding])
      (simp_all add: rerun_world_def task_record_def)
  also have "\<dots> = (Inr (path_join ''tasks'' ''T-1''),
     rerun_world\<lparr>files := (files rerun_world)
          (path_join (path_join ''tasks'' ''T-1'') ''metadata.json'' \<mapsto> json_dumps seeded_record),
        out := out rerun_world @ [''Created folder: '' @ path_join ''tasks'' ''T-1'',
                        ''Copied metadata_base.json to '' @ path_join ''tasks'' ''T-1'',
                        ''Updated metadata.json in '' @ path_join ''tasks'' ''T-1''
                          @ '' with task_id: '' @ ''new-id'']\<rparr>)"
    by (rule seed_metadata_run [where loads = json_loads and tmpl = template_text,
        OF _ _ _ _ template_text_decoding populate_example])
      (simp_all add: j rerun_world_def makedirs_def)
  finally show ?thesis
    by (simp add: j rerun_world_def)
qed

theorem bootstrapper_resets_metadata_witness:
  "files (snd (create_task_folder_and_metadata json_loads json_dumps ''new-id'' rerun_world
       ''automation_tool/task_data.json'')) ''tasks/T-1/metadata.json'' =
     Some (json_dumps seeded_record) \<and>
   create_task_folder_and_metadata json_loads json_dumps ''new-id''
     (rerun_world\<lparr>files := (files rerun_world)(''tasks/T-1/metadata.json'' := None)\<rparr>)
     ''automation_tool/task_data.json'' =
   create_task_folder_and_metadata json_loads json_dumps ''new-id'' rerun_world
     ''automation_tool/task_data.json''"
proof -
  have j: "path_join ''tasks/T-1'' ''metadata.json'' = ''tasks/T-1/metadata.json''"
    by (simp add: path_join_def)
  from bootstrapper_resets_metadata [OF rerun_first, of None] rerun_first
  show ?thesis
    by (simp add: j)
qed

section \<open>What the merge can change\<close>

lemma filter_update_dropped:
  "k \<in> set ks \<Longrightarrow>
     filter (\<lambda>kv. fst kv \<notin> set ks) (AList.update k v m) = filter (\<lambda>kv. fst kv \<notin> set ks) m"
  by (induction m) auto

lemma setitem_Inr: "setitem s k v = Inr s' \<Longrightarrow> \<exists>m. s = JObj m \<and> s' = JObj (AList.update k v m)"
  by (cases s) auto


lemma setitem_without:
  "setitem s k v = Inr s' \<Longrightarrow> k \<in> set ks \<Longrightarrow> without_keys ks s' = without_keys ks s"
  by (auto dest!: setitem_Inr simp: filter_update_dropped)

























lemma metadata_text_decoding: "json_loads metadata_text = Inr metadata_record"
  by code_simp


lemma metadata_path_example:
  "path_join ''tasks/T-1'' ''metadata.json'' = ''tasks/T-1/metadata.json''"
  by (simp add: path_join_def)



section \<open>The evaluation section, key by key\<close>



section \<open>Scores land in the slot that holds the diff key\<close>

lemma item_JObj [simp]: "item (JObj m) k = map_of m k"
  by (simp add: item_def)

lemma item_Some_obj: "item v k = Some x \<Longrightarrow> \<exists>m. v = JObj m \<and> map_of m k = Some x"
  by (cases v) (simp_all add: item_def)
























section \<open>An incomplete implementation entry\<close>

lemma update_implementations_append:
  "update_implementations md (xs @ ys) =
     and_then (update_implementations md xs) (\<lambda>md1. update_implementations md1 ys)"
proof (induction xs arbitrary: md)
  case Nil
  then show ?case by simp
next
  case (Cons x xs)
  then show ?case by (cases "merge_entry md x") simp_all
qed

lemma merge_entry_incomplete:
  assumes "map_of entry ''task_success'' = None \<or>
           map_of entry ''instruction_following'' = None \<or> map_of entry ''comment'' = None"
  shows "merge_entry md (JObj entry) = Inl KeyError"
  using assms
  by (auto simp: merge_entry_def and_then_def split: option.splits sum.splits)

lemma update_implementations_incomplete:
  assumes "map_of entry ''task_success'' = None \<or>
           map_of entry ''instruction_following'' = None \<or> map_of entry ''comment'' = None"
  shows "\<exists>err. update_implementations md (before @ JObj entry # later) = Inl err"
    and "update_implementations md before = Inr md1 \<Longrightarrow>
           update_implementations md (before @ JObj entry # later) = Inl KeyError"
proof -
  show "\<exists>err. update_implementations md (before @ JObj entry # later) = Inl err"
    by (cases "update_implementations md before")
      (simp_all add: update_implementations_append merge_entry_incomplete [OF assms])
  show "update_implementations md (before @ JObj entry # later) = Inl KeyError"
    if "update_implementations md before = Inr md1"
    using that by (simp add: update_implementations_append merge_entry_incomplete [OF assms])
qed

text \<open>
  C8, as amended. When the implementations of the result are a list with an entry that is
  a dictionary without \<open>task_success\<close>, \<open>instruction_following\<close> or \<open>comment\<close>
  (whatever its name), \<open>update_metadata\<close> raises and the world stays as it was, the
  metadata file unwritten. The exception is a \<^verbatim>\<open>KeyError\<close> when the file is read and
  the entries before that one are merged without an error.
\<close>

theorem incomplete_entry_aborts_merge:
  assumes "item analysis_results ''implementations'' = Some (JArr (before @ JObj entry # later))"
    and "map_of entry ''task_success'' = None \<or>
         map_of entry ''instruction_following'' = None \<or> map_of entry ''comment'' = None"
  shows "(\<exists>err. update_metadata loads dumps w task_folder analysis_results = (Inl err, w)) \<and>
    (\<forall>tx metadata metadata1.
       files w (path_join task_folder ''metadata.json'') = Some tx \<and>
       loads tx = Inr metadata \<and>
       update_implementations metadata before = Inr metadata1 \<longrightarrow>
         update_metadata loads dumps w task_folder analysis_results = (Inl KeyError, w))"
proof -
  from assms(1) obtain a where a: "analysis_results = JObj a"
    "map_of a ''implementations'' = Some (JArr (before @ JObj entry # later))"
    by (auto dest: item_Some_obj)
  have m: "merge_results md analysis_results =
      and_then (update_implementations md (before @ JObj entry # later))
        (\<lambda>md'. update_evaluation md' analysis_results)" for md
    using a by (simp add: merge_results_def)
  have e: "\<exists>err. merge_results md analysis_results = Inl err" for md
    using update_implementations_incomplete(1) [OF assms(2), of md before later]
    by (auto simp: m)
  have "\<exists>err. update_metadata loads dumps w task_folder analysis_results = (Inl err, w)"
  proof (cases "files w (path_join task_folder ''metadata.json'')")
    case None
    then show ?thesis by (simp add: update_metadata_def read_text_def)
  next
    case (Some tx)
    show ?thesis
    proof (cases "loads tx")
      case (Inl msg)
      with Some show ?thesis by (simp add: update_metadata_def read_text_def decode_def)
    next
      case (Inr md)
      from e [of md] obtain err where "merge_results md analysis_results = Inl err" by blast
      with Some Inr show ?thesis by (simp add: update_metadata_def read_text_def decode_def)
    qed
  qed
  moreover have "update_metadata loads dumps w task_folder analysis_results = (Inl KeyError, w)"
    if "files w (path_join task_folder ''metadata.json'') = Some tx" "loads tx = Inr md"
      "update_implementations md before = Inr md1" for tx md md1
  proof -
    from update_implementations_incomplete(2) [OF assms(2) that(3), of later]
    have "merge_results md analysis_results = Inl KeyError" by (simp add: m)
    with that(1,2) show ?thesis by (simp add: update_metadata_def read_text_def decode_def)
  qed
  ultimately show ?thesis by blast
qed

lemma first_entry_merges:
  "update_implementations metadata_record [score_entry ''impl_2'' 4 4 ''fine''] =
     Inr (JObj [(''task_id'', JStr ''id-7''), (''jira'', JStr ''T-1''),
           (''task_details'', JObj [(''repo_name'', JStr ''demo'')]),
           (''implementations'',
            JArr [JObj [(''diff_2'', JStr ''d2''), (''task_success'', JInt 4),
                        (''instruction_following'', JInt 4), (''comment'', JStr ''fine'')],
                  JObj [(''diff_1'', JStr ''d1''), (''comment'', JStr ''old'')],
                  JObj [(''diff_4'', JStr ''d4'')],
                  JObj [(''diff_3'', JStr ''d3'')]]),
           (''evaluation'',
            JObj [(''best_diff'', JInt 0), (''preference_rationale'', JStr []),
                  (''improved_diff'', JStr ''keep'')])])"
  by code_simp

theorem incomplete_entry_aborts_merge_witness:
  "update_metadata json_loads json_dumps merge_world ''tasks/T-1'' incomplete_result =
     (Inl KeyError, merge_world)"
proof -
  have i: "item incomplete_result ''implementations'' =
      Some (JArr ([score_entry ''impl_2'' 4 4 ''fine''] @
                  JObj [(''name'', JStr ''impl_1''), (''task_success'', JInt 3)] # []))"
    by (simp add: incomplete_result_def)
  have l: "map_of [(''name'', JStr ''impl_1''), (''task_success'', JInt 3)] ''task_success'' = None \<or>
     map_of [(''name'', JStr ''impl_1''), (''task_success'', JInt 3)] ''instruction_following'' = None \<or>
     map_of [(''name'', JStr ''impl_1''), (''task_success'', JInt 3)] ''comment'' = None"
    by simp
  have f: "files merge_world (path_join ''tasks/T-1'' ''metadata.json'') = Some metadata_text"
    by (simp add: metadata_path_example merge_world_def)
  from incomplete_entry_aborts_merge [OF i l, of json_loads json_dumps merge_world "''tasks/T-1''"]
    f metadata_text_decoding first_entry_merges
  show ?thesis by blast
qed

text \<open>
  The claim as first stated, a \<^verbatim>\<open>KeyError\<close> for every such result, fails: an entry
  before the incomplete one can raise first. A number as first entry is a
  \<^verbatim>\<open>TypeError\<close> at \<^verbatim>\<open>implementation["name"]\<close>.
\<close>

theorem incomplete_entry_other_error_counterexample:
  "fst (update_metadata json_loads json_dumps merge_world ''tasks/T-1'' broken_result) = Inl TypeError \<and>
   fst (update_metadata json_loads json_dumps merge_world ''tasks/T-1'' broken_result) \<noteq> Inl KeyError"
proof -
  have "merge_results metadata_record broken_result = Inl TypeError"
    by (simp add: merge_results_def broken_result_def merge_entry_def)
  then have "update_metadata json_loads json_dumps merge_world ''tasks/T-1'' broken_result =
      (Inl TypeError, merge_world)"
    by (simp add: update_metadata_def metadata_path_example read_text_def decode_def
      merge_world_def metadata_text_decoding)
  then show ?thesis by simp
qed

end
